theory Spec2Isabelle
  imports Complex_Main "HOL-Library.AList"
begin

section \<open>Python values\<close>

text \<open>
  A Python \<open>str\<close> is a sequence of Unicode code points, and \<open>len\<close> counts code
  points; it is modelled as the list of its code points. \<open>ascii\<close> writes an ASCII
  literal. The literals of the sources that are not ASCII are given by their code points.
\<close>

type_synonym pystr = "nat list"

definition ascii :: "string \<Rightarrow> pystr" where
  "ascii s = map of_char s"

text \<open>The default city of the sources, three code points (``Lhasa city'').\<close>

definition lasa_shi :: pystr where
  "lasa_shi = [0x62C9, 0x8428, 0x5E02]"

text \<open>The alias of lake Namtso that \<open>preprocess_data\<close> rewrites, and its canonical spelling.\<close>

definition namucuo_alias :: pystr where
  "namucuo_alias = [0x7EB3, 0x6728, 0x9519]"

definition namucuo :: pystr where
  "namucuo = [0x7EB3, 0x6728, 0x63AA]"

text \<open>The two code points (``fact'') that prefix the fallback key of an explanation.\<close>

definition shishi :: pystr where
  "shishi = [0x4E8B, 0x5B9E]"

text \<open>\<open>str(i)\<close> for a natural number: its decimal digits.\<close>

fun str_nat :: "nat \<Rightarrow> pystr" where
  "str_nat n = (if n < 10 then [48 + n] else str_nat (n div 10) @ [48 + n mod 10])"

declare str_nat.simps [simp del]

text \<open>The exceptions of the modelled code that can leave a function.\<close>

datatype py_error = TypeError | ValueError | IndexError

text \<open>\<open>xs[0]\<close>, which raises on the empty list.\<close>

definition first_item :: "'a list \<Rightarrow> py_error + 'a" where
  "first_item xs = (case xs of [] \<Rightarrow> Inl IndexError | x # _ \<Rightarrow> Inr x)"

section \<open>Facts\<close>

text \<open>
  A fact is a dictionary that the resolvers read with \<open>get\<close> and a default, so every
  key may be absent: \<open>None\<close> is the absent key. The empty dictionary is the fact with no
  key at all.
\<close>

record source_info =
  kind :: "pystr option"
  url :: "pystr option"
  weight :: "real option"

record fact =
  entity_name :: "pystr option"
  attribute :: "pystr option"
  content :: "pystr option"
  source :: "source_info option"
  timestamp :: "pystr option"

definition empty_dict :: fact where
  "empty_dict = \<lparr>entity_name = None, attribute = None, content = None, source = None,
     timestamp = None\<rparr>"

text \<open>\<open>x.get('source', {}).get('weight', d)\<close> and \<open>x.get('source', {}).get('url', d)\<close>.\<close>

definition source_weight :: "real \<Rightarrow> fact \<Rightarrow> real" where
  "source_weight d x =
     (case source x of None \<Rightarrow> d
      | Some s \<Rightarrow> (case weight s of None \<Rightarrow> d | Some w \<Rightarrow> w))"

definition source_url :: "pystr \<Rightarrow> fact \<Rightarrow> pystr" where
  "source_url d x =
     (case source x of None \<Rightarrow> d
      | Some s \<Rightarrow> (case url s of None \<Rightarrow> d | Some u \<Rightarrow> u))"

section \<open>Sorting\<close>

text \<open>
  \<open>sorted(xs, key=k, reverse=True)\<close>: the sort is stable, and with \<open>reverse=True\<close>
  items of equal key keep the order of the input. So the result is in descending order of
  key, equal keys in input order.
\<close>

definition sorted_reverse :: "('a \<Rightarrow> 'k::linorder) \<Rightarrow> 'a list \<Rightarrow> 'a list" where
  "sorted_reverse key xs = rev (sort_key key (rev xs))"

section \<open>Dates and times\<close>

text \<open>
  A \<open>datetime\<close> is naive (no UTC offset) or aware (with one). A naive value is held as
  the microseconds of its wall clock since 0001-01-01T00:00:00, an aware one as the
  microseconds of its UTC instant since then. Two naive values compare by wall clock and two
  aware values by instant; comparing or subtracting a naive and an aware value raises
  TypeError.
\<close>

datatype datetime = Naive int | Aware int

fun is_naive :: "datetime \<Rightarrow> bool" where
  "is_naive (Naive _) = True"
| "is_naive (Aware _) = False"

fun is_aware :: "datetime \<Rightarrow> bool" where
  "is_aware (Naive _) = False"
| "is_aware (Aware _) = True"

fun ticks :: "datetime \<Rightarrow> int" where
  "ticks (Naive t) = t"
| "ticks (Aware t) = t"

text \<open>\<open>datetime.min\<close> is naive.\<close>

definition datetime_min :: datetime where
  "datetime_min = Naive 0"

definition usec_per_day :: int where
  "usec_per_day = 86400000000"

text \<open>\<open>(a - b).days\<close>: a \<open>timedelta\<close> keeps its days rounded towards minus infinity.\<close>

definition sub_days :: "datetime \<Rightarrow> datetime \<Rightarrow> py_error + int" where
  "sub_days a b =
     (case (a, b) of
        (Naive x, Naive y) \<Rightarrow> Inr ((x - y) div usec_per_day)
      | (Aware x, Aware y) \<Rightarrow> Inr ((x - y) div usec_per_day)
      | _ \<Rightarrow> Inl TypeError)"

text \<open>
  A sort by \<open>datetime\<close> keys. A comparison sort relates every item to the others through
  the comparisons it makes, so on a list that holds a naive and an aware key it compares such
  a pair and raises TypeError; on a list of one kind it sorts.
\<close>

definition sorted_reverse_dt :: "('a \<Rightarrow> datetime) \<Rightarrow> 'a list \<Rightarrow> py_error + 'a list" where
  "sorted_reverse_dt key xs =
     (if list_all (\<lambda>x. is_naive (key x)) xs \<or> list_all (\<lambda>x. is_aware (key x)) xs
      then Inr (sorted_reverse (\<lambda>x. ticks (key x)) xs)
      else Inl TypeError)"

text \<open>\<open>s.replace('Z', '+00:00')\<close>: every \<open>Z\<close> (code point 90) is replaced.\<close>

definition replace_Z :: "pystr \<Rightarrow> pystr" where
  "replace_Z s = concat (map (\<lambda>c. if c = 90 then ascii ''+00:00'' else [c]) s)"

subsection \<open>An ISO 8601 reader\<close>

text \<open>
  \<open>datetime.fromisoformat\<close> belongs to the Python library, so the functions below take
  it as a parameter of type \<open>pystr \<Rightarrow> datetime option\<close>, \<open>None\<close> standing for the
  ValueError it raises. \<open>fromisoformat_std\<close> is the reader for the three shapes that the
  data of the repository uses: \<open>YYYY-MM-DD\<close>, \<open>YYYY-MM-DDTHH:MM:SS\<close> and
  \<open>YYYY-MM-DDTHH:MM:SS+HH:MM\<close> (the separator is any one character). It serves where a
  concrete reader is wanted.
\<close>

fun digits_val :: "pystr \<Rightarrow> nat option" where
  "digits_val [] = Some 0"
| "digits_val (c # cs) =
     (if 48 \<le> c \<and> c \<le> 57
      then (case digits_val cs of None \<Rightarrow> None
            | Some v \<Rightarrow> Some ((c - 48) * 10 ^ length cs + v))
      else None)"

definition is_leap :: "nat \<Rightarrow> bool" where
  "is_leap y = (y mod 4 = 0 \<and> (y mod 100 \<noteq> 0 \<or> y mod 400 = 0))"

definition days_in_month :: "nat \<Rightarrow> nat \<Rightarrow> nat" where
  "days_in_month y m =
     (if m = 2 then (if is_leap y then 29 else 28)
      else if m = 4 \<or> m = 6 \<or> m = 9 \<or> m = 11 then 30 else 31)"

definition days_before_year :: "nat \<Rightarrow> nat" where
  "days_before_year y = (y - 1) * 365 + (y - 1) div 4 - (y - 1) div 100 + (y - 1) div 400"

text \<open>The days of the year before the first of month \<open>m\<close>, for \<open>m\<close> from 1 to 12.\<close>

definition days_before_month :: "nat \<Rightarrow> nat \<Rightarrow> nat" where
  "days_before_month y m =
     [0, 31, 59, 90, 120, 151, 181, 212, 243, 273, 304, 334] ! (m - 1)
       + (if 2 < m \<and> is_leap y then 1 else 0)"

text \<open>The days from 0001-01-01 to the date of a ten-character \<open>YYYY-MM-DD\<close>.\<close>

definition parse_date :: "pystr \<Rightarrow> nat option" where
  "parse_date s =
     (if length s = 10 \<and> s ! 4 = 45 \<and> s ! 7 = 45
      then (case (digits_val (take 4 s), digits_val (take 2 (drop 5 s)),
                  digits_val (drop 8 s)) of
              (Some y, Some m, Some d) \<Rightarrow>
                (if 1 \<le> y \<and> 1 \<le> m \<and> m \<le> 12 \<and> 1 \<le> d \<and> d \<le> days_in_month y m
                 then Some (days_before_year y + days_before_month y m + (d - 1))
                 else None)
            | _ \<Rightarrow> None)
      else None)"

text \<open>The seconds since midnight of an eight-character \<open>HH:MM:SS\<close>.\<close>

definition parse_time :: "pystr \<Rightarrow> nat option" where
  "parse_time s =
     (if length s = 8 \<and> s ! 2 = 58 \<and> s ! 5 = 58
      then (case (digits_val (take 2 s), digits_val (take 2 (drop 3 s)),
                  digits_val (drop 6 s)) of
              (Some h, Some m, Some sec) \<Rightarrow>
                (if h < 24 \<and> m < 60 \<and> sec < 60 then Some (h * 3600 + m * 60 + sec)
                 else None)
            | _ \<Rightarrow> None)
      else None)"

text \<open>The seconds east of UTC of a six-character \<open>+HH:MM\<close> or \<open>-HH:MM\<close>.\<close>

definition parse_offset :: "pystr \<Rightarrow> int option" where
  "parse_offset s =
     (if length s = 6 \<and> (s ! 0 = 43 \<or> s ! 0 = 45) \<and> s ! 3 = 58
      then (case (digits_val (take 2 (drop 1 s)), digits_val (drop 4 s)) of
              (Some h, Some m) \<Rightarrow>
                (if h < 24 \<and> m < 60
                 then Some ((if s ! 0 = 45 then - 1 else 1) * int (h * 3600 + m * 60))
                 else None)
            | _ \<Rightarrow> None)
      else None)"

definition fromisoformat_std :: "pystr \<Rightarrow> datetime option" where
  "fromisoformat_std s =
     (if length s = 10 then
        (case parse_date s of None \<Rightarrow> None
         | Some d \<Rightarrow> Some (Naive (int d * usec_per_day)))
      else if length s = 19 then
        (case (parse_date (take 10 s), parse_time (drop 11 s)) of
           (Some d, Some t) \<Rightarrow> Some (Naive (int d * usec_per_day + int t * 1000000))
         | _ \<Rightarrow> None)
      else if length s = 25 then
        (case (parse_date (take 10 s), parse_time (take 8 (drop 11 s)),
               parse_offset (drop 19 s)) of
           (Some d, Some t, Some off) \<Rightarrow>
             Some (Aware (int d * usec_per_day + int t * 1000000 - off * 1000000))
         | _ \<Rightarrow> None)
      else None)"

section \<open>The resolvers of conflict_experiment.py\<close>

text \<open>
  \<open>resolve_conflict_weight_first\<close> and \<open>resolve_conflict_latest_first\<close> return one
  dictionary, \<open>resolve_conflict_with_hybrid\<close> returns a pair of the winner and an
  explanation. \<open>resolution\<close> holds either shape. The scores are Python floats; they are
  modelled as real numbers.
\<close>

record score_details =
  base_weight :: real
  time_decay :: real
  time_freshness :: real
  content_quality :: real

record score_entry =
  final_score :: real
  details :: score_details

text \<open>
  The two fixed texts of the key \<open>reason\<close>: ``no conflicting facts were supplied'' and
  ``winner selected by composite score''.
\<close>

datatype reason_text = No_facts_supplied | Selected_by_composite_score

text \<open>
  The key \<open>scores\<close> is a dictionary: an association list in insertion order, where
  storing under a key that is present replaces its value. It is absent from the explanation
  of the empty input.
\<close>

record explanation =
  reason :: reason_text
  scores :: "(pystr \<times> score_entry) list option"

datatype resolution = Winner fact | Winner_explained fact explanation

fun winner_of :: "resolution \<Rightarrow> fact" where
  "winner_of (Winner w) = w"
| "winner_of (Winner_explained w _) = w"

fun explanation_of :: "resolution \<Rightarrow> explanation option" where
  "explanation_of (Winner _) = None"
| "explanation_of (Winner_explained _ e) = Some e"

definition resolve_conflict_weight_first :: "fact list \<Rightarrow> py_error + resolution" where
  "resolve_conflict_weight_first conflicting_facts =
     (if conflicting_facts = [] then Inr (Winner empty_dict)
      else (case first_item (sorted_reverse (source_weight 0) conflicting_facts) of
              Inl e \<Rightarrow> Inl e
            | Inr w \<Rightarrow> Inr (Winner w)))"

text \<open>
  The key function of \<open>resolve_conflict_latest_first\<close>: an absent or empty timestamp and
  one that does not parse give \<open>datetime.min\<close>.
\<close>

definition parse_timestamp :: "(pystr \<Rightarrow> datetime option) \<Rightarrow> fact \<Rightarrow> datetime" where
  "parse_timestamp fromisoformat x =
     (case timestamp x of
        None \<Rightarrow> datetime_min
      | Some timestamp_str \<Rightarrow>
          (if timestamp_str = [] then datetime_min
           else (case fromisoformat (replace_Z timestamp_str) of
                   None \<Rightarrow> datetime_min
                 | Some d \<Rightarrow> d)))"

definition resolve_conflict_latest_first ::
  "(pystr \<Rightarrow> datetime option) \<Rightarrow> fact list \<Rightarrow> py_error + resolution" where
  "resolve_conflict_latest_first fromisoformat conflicting_facts =
     (if conflicting_facts = [] then Inr (Winner empty_dict)
      else (case sorted_reverse_dt (parse_timestamp fromisoformat) conflicting_facts of
              Inl e \<Rightarrow> Inl e
            | Inr sorted_facts \<Rightarrow>
                (case first_item sorted_facts of
                   Inl e \<Rightarrow> Inl e
                 | Inr w \<Rightarrow> Inr (Winner w))))"

text \<open>
  The time factors of the hybrid score, \<open>(time_decay, time_freshness)\<close>. \<open>now\<close> is
  the naive \<open>datetime.now()\<close>. The ValueError of the reader and the TypeError of the
  subtraction are both caught and give \<open>(0.3, 0.3)\<close>.
\<close>

definition time_factors ::
  "(pystr \<Rightarrow> datetime option) \<Rightarrow> int \<Rightarrow> fact \<Rightarrow> real \<times> real" where
  "time_factors fromisoformat now x =
     (case timestamp x of
        None \<Rightarrow> (0.3, 0.3)
      | Some timestamp_str \<Rightarrow>
          (if timestamp_str = [] then (0.3, 0.3)
           else (case fromisoformat (replace_Z timestamp_str) of
                   None \<Rightarrow> (0.3, 0.3)
                 | Some fact_time \<Rightarrow>
                     (case sub_days (Naive now) fact_time of
                        Inl _ \<Rightarrow> (0.3, 0.3)
                      | Inr time_diff_days \<Rightarrow>
                          (max 0.3 (1 - (real_of_int time_diff_days / 30) * 0.15),
                           1.0 - min 1.0 (real_of_int time_diff_days / 365) * 0.7)))))"

text \<open>\<open>fact.get('value', '')\<close>.\<close>

definition content_value :: "fact \<Rightarrow> pystr" where
  "content_value x = (case content x of None \<Rightarrow> [] | Some v \<Rightarrow> v)"

text \<open>One round of the scoring loop: the fact, its final score and the details.\<close>

definition score_fact ::
  "(pystr \<Rightarrow> datetime option) \<Rightarrow> int \<Rightarrow> fact \<Rightarrow> fact \<times> real \<times> score_details" where
  "score_fact fromisoformat now x =
     (let bw = source_weight 0.5 x;
          (td, tf) = time_factors fromisoformat now x;
          cq = min 1.0 (real (length (content_value x)) / 200) * 0.5 + 0.5;
          fs = bw * 0.6 + tf * 0.3 + cq * 0.1
      in (x, fs, \<lparr>base_weight = bw, time_decay = td, time_freshness = tf,
                 content_quality = cq\<rparr>))"

text \<open>
  The dictionary comprehension over \<open>enumerate(sorted_facts)\<close>: the key is the url of
  the source, or the two code points of \<open>shishi\<close> followed by the rank when there is none.
\<close>

definition explain_scores ::
  "(fact \<times> real \<times> score_details) list \<Rightarrow> (pystr \<times> score_entry) list" where
  "explain_scores sorted_facts =
     fold (\<lambda>(i, (x, score, d)).
             AList.update (source_url (shishi @ str_nat i) x)
               \<lparr>final_score = score, details = d\<rparr>)
          (List.enumerate 0 sorted_facts) []"

definition resolve_conflict_with_hybrid ::
  "(pystr \<Rightarrow> datetime option) \<Rightarrow> int \<Rightarrow> fact list \<Rightarrow> py_error + resolution" where
  "resolve_conflict_with_hybrid fromisoformat now conflicting_facts =
     (if conflicting_facts = []
      then Inr (Winner_explained empty_dict \<lparr>reason = No_facts_supplied, scores = None\<rparr>)
      else (let scored_facts = map (score_fact fromisoformat now) conflicting_facts;
                sorted_facts = sorted_reverse (\<lambda>x. fst (snd x)) scored_facts
            in (case first_item sorted_facts of
                  Inl e \<Rightarrow> Inl e
                | Inr (winning_fact, _) \<Rightarrow>
                    Inr (Winner_explained winning_fact
                          \<lparr>reason = Selected_by_composite_score,
                           scores = Some (explain_scores sorted_facts)\<rparr>))))"

section \<open>The weight calculator and the similarity (utils.py)\<close>

text \<open>
  A flat dictionary of strings, such as the data of an entity: keys are the ASCII names of
  the fields. \<open>get_or d k v\<close> is \<open>d.get(k, v)\<close>.
\<close>

type_synonym pydict = "string \<rightharpoonup> pystr"

definition get_or :: "pydict \<Rightarrow> string \<Rightarrow> pystr \<Rightarrow> pystr" where
  "get_or d k v = (case d k of None \<Rightarrow> v | Some x \<Rightarrow> x)"

text \<open>
  \<open>compute_dynamic_weight\<close>. \<open>now\<close> is the UTC instant of the aware
  \<open>datetime.now().astimezone()\<close>; \<open>metrics\<close> maps the name of an indicator to a
  number. Every exception is caught and gives 0: the ValueError of the reader, and the
  TypeError of subtracting a naive timestamp from the aware \<open>now\<close>.
\<close>

definition compute_dynamic_weight ::
  "(pystr \<Rightarrow> datetime option) \<Rightarrow> int \<Rightarrow> pydict \<Rightarrow> (string \<rightharpoonup> real) \<Rightarrow> real" where
  "compute_dynamic_weight fromisoformat now data metrics =
     (let ratings = (case metrics ''ratings'' of None \<Rightarrow> 0.0 | Some r \<Rightarrow> r);
          base_weight = ratings / 5.0;
          base_weight =
            (if data ''source_type'' = Some (ascii ''crawler'') then base_weight * 0.8
             else if data ''source_type'' = Some (ascii ''manual'') then base_weight * 1.0
             else base_weight);
          timestamp_str = get_or data ''pub_timestamp'' []
      in if timestamp_str \<noteq> [] then
           (case fromisoformat (replace_Z timestamp_str) of
              None \<Rightarrow> 0.0
            | Some timestamp_date \<Rightarrow>
                (case sub_days (Aware now) timestamp_date of
                   Inl _ \<Rightarrow> 0.0
                 | Inr age_days \<Rightarrow>
                     (let freshness = max 0.0 (1.0 - real_of_int age_days / 365.0)
                      in max 0.0 (min 1.0 (base_weight * freshness)))))
         else max 0.0 (min 1.0 base_weight))"

text \<open>
  The formula of the specification for the same quantity, in its own words: the clamped
  base, times the multiplier of the source type, times the freshness.
\<close>

definition spec_dynamic_weight :: "real \<Rightarrow> real \<Rightarrow> int \<Rightarrow> real" where
  "spec_dynamic_weight rating multiplier age_days =
     max 0 (min 1 (rating / 5)) * multiplier * max 0 (1 - real_of_int age_days / 365)"

text \<open>
  \<open>compute_semantic_similarity\<close>. The sentence encoder is outside the repository:
  \<open>encode_dot a b\<close> is the inner product of the two embeddings, \<open>None\<close> when the
  encoder raises.
\<close>

definition compute_semantic_similarity ::
  "(pystr \<Rightarrow> pystr \<Rightarrow> real option) \<Rightarrow> pystr \<Rightarrow> pystr \<Rightarrow> real" where
  "compute_semantic_similarity encode_dot text1 text2 =
     (if text1 = [] \<or> text2 = [] then 0.0
      else (case encode_dot text1 text2 of
              None \<Rightarrow> 0.0
            | Some similarity \<Rightarrow> max 0.0 (min 1.0 similarity)))"

section \<open>Relationship conflicts and the conflict queue (conflict_resolution.py)\<close>

record 'p relationship =
  source_name :: pystr
  target_name :: pystr
  rel_type :: pystr
  properties :: 'p

text \<open>
  \<open>check_relationship_conflict\<close>: the loop returns at the first existing edge of the same
  source, target and type whose similarity is above the threshold. \<open>dumps\<close> is
  \<open>json.dumps\<close>.
\<close>

fun check_relationship_conflict ::
  "('p \<Rightarrow> pystr) \<Rightarrow> (pystr \<Rightarrow> pystr \<Rightarrow> real option) \<Rightarrow>
     'p relationship \<Rightarrow> 'p relationship list \<Rightarrow> bool" where
  "check_relationship_conflict dumps encode_dot rel [] = False"
| "check_relationship_conflict dumps encode_dot rel (existing # existing_rels) =
     (if source_name rel = source_name existing \<and> target_name rel = target_name existing
         \<and> rel_type rel = rel_type existing
      then (if compute_semantic_similarity encode_dot (dumps (properties rel))
                 (dumps (properties existing)) > 0.7
            then True
            else check_relationship_conflict dumps encode_dot rel existing_rels)
      else check_relationship_conflict dumps encode_dot rel existing_rels)"

text \<open>\<open>str.strip()\<close> removes the white space of Unicode at both ends.\<close>

definition is_space :: "nat \<Rightarrow> bool" where
  "is_space c =
     ((9 \<le> c \<and> c \<le> 13) \<or> (28 \<le> c \<and> c \<le> 32) \<or> c = 0x85 \<or> c = 0xA0 \<or> c = 0x1680
      \<or> (0x2000 \<le> c \<and> c \<le> 0x200A) \<or> c = 0x2028 \<or> c = 0x2029 \<or> c = 0x202F
      \<or> c = 0x205F \<or> c = 0x3000)"

definition strip :: "pystr \<Rightarrow> pystr" where
  "strip s = rev (dropWhile is_space (rev (dropWhile is_space s)))"

text \<open>
  The queue file: absent, or a sequence of lines, or a sequence of lines after which reading
  raises. What the logger receives is kept as a list of entries.
\<close>

datatype conflict_file = Absent | Lines "pystr list" | Broken "pystr list"

datatype log_entry = Line_failed pystr | Read_failed

text \<open>
  The loop over the lines: \<open>loads\<close> is \<open>json.loads\<close>, \<open>None\<close> standing for its
  JSONDecodeError. A line that does not decode is logged and skipped.
\<close>

fun read_lines :: "(pystr \<Rightarrow> 'j option) \<Rightarrow> pystr list \<Rightarrow> 'j list \<times> log_entry list" where
  "read_lines loads [] = ([], [])"
| "read_lines loads (line # rest) =
     (let (conflicts, logged) = read_lines loads rest
      in (case loads (strip line) of
            Some c \<Rightarrow> (c # conflicts, logged)
          | None \<Rightarrow> (conflicts, Line_failed line # logged)))"

definition get_conflict_log ::
  "(pystr \<Rightarrow> 'j option) \<Rightarrow> conflict_file \<Rightarrow> 'j list \<times> log_entry list" where
  "get_conflict_log loads file =
     (case file of
        Absent \<Rightarrow> ([], [])
      | Lines ls \<Rightarrow> read_lines loads ls
      | Broken ls \<Rightarrow> ([], snd (read_lines loads ls) @ [Read_failed]))"

section \<open>The merge transaction (knowledge_graph_updater.py)\<close>

text \<open>
  The graph store is outside the repository; the statements that \<open>tx_work\<close> sends to it
  are given their meaning on a state of nodes and edges. A node has a label and properties;
  an edge names its two ends by their positions in the list of nodes (no node is ever deleted
  here), and has a type and properties.
\<close>

record node =
  n_label :: string
  n_props :: pydict

record edge =
  e_src :: nat
  e_type :: string
  e_dst :: nat
  e_props :: pydict

record graph =
  g_nodes :: "node list"
  g_edges :: "edge list"

definition node_matches :: "string \<Rightarrow> pystr \<Rightarrow> node \<Rightarrow> bool" where
  "node_matches l nm n = (n_label n = l \<and> n_props n ''name'' = Some nm)"

text \<open>
  \<open>MERGE (n:l {name: $name}) SET n += $props RETURN n\<close>: every node of the label with
  that name is matched, and one is created when there is none; \<open>SET +=\<close> writes the given
  properties over those of each such node and keeps the others. The second component is the
  number of rows returned.
\<close>

definition merge_node :: "string \<Rightarrow> pystr \<Rightarrow> pydict \<Rightarrow> graph \<Rightarrow> graph \<times> nat" where
  "merge_node l nm p g =
     (if list_ex (node_matches l nm) (g_nodes g)
      then (g\<lparr>g_nodes :=
                map (\<lambda>n. if node_matches l nm n then n\<lparr>n_props := n_props n ++ p\<rparr> else n)
                  (g_nodes g)\<rparr>,
            length (filter (node_matches l nm) (g_nodes g)))
      else (g\<lparr>g_nodes := g_nodes g @ [\<lparr>n_label = l, n_props = [''name'' \<mapsto> nm] ++ p\<rparr>]\<rparr>, 1))"

definition matching_ids :: "string \<Rightarrow> pystr \<Rightarrow> graph \<Rightarrow> nat list" where
  "matching_ids l nm g =
     filter (\<lambda>i. node_matches l nm (g_nodes g ! i)) [0..<length (g_nodes g)]"

definition edge_matches :: "nat \<Rightarrow> string \<Rightarrow> nat \<Rightarrow> edge \<Rightarrow> bool" where
  "edge_matches i t j e = (e_src e = i \<and> e_type e = t \<and> e_dst e = j)"

text \<open>\<open>MERGE (a)-[r:t]->(c) SET r += $props\<close> for one pair of end nodes.\<close>

definition merge_edge_pair :: "string \<Rightarrow> pydict \<Rightarrow> nat \<times> nat \<Rightarrow> edge list \<Rightarrow> edge list" where
  "merge_edge_pair t p ij es =
     (if list_ex (edge_matches (fst ij) t (snd ij)) es
      then map (\<lambda>e. if edge_matches (fst ij) t (snd ij) e
                     then e\<lparr>e_props := e_props e ++ p\<rparr> else e) es
      else es @ [\<lparr>e_src = fst ij, e_type = t, e_dst = snd ij, e_props = p\<rparr>])"

text \<open>
  \<open>MATCH (a:la {name: $na}) MATCH (c:lc {name: $nc}) MERGE (a)-[r:t]->(c) SET r += $props
  RETURN r\<close>: the merge runs for every pair of matched ends. The second component is the
  number of pairs; the statement returns no row exactly when it is zero.
\<close>

definition merge_edge ::
  "string \<Rightarrow> pystr \<Rightarrow> string \<Rightarrow> string \<Rightarrow> pystr \<Rightarrow> pydict \<Rightarrow> graph \<Rightarrow> graph \<times> nat" where
  "merge_edge la na t lc nc p g =
     (let pairs = List.product (matching_ids la na g) (matching_ids lc nc g)
      in (g\<lparr>g_edges := fold (merge_edge_pair t p) pairs (g_edges g)\<rparr>, length pairs))"

text \<open>
  The two readings of the clock in one call of \<open>tx_work\<close>, each as the text that
  \<open>isoformat()\<close> gives: the one for the default of \<open>pub_timestamp\<close> and the one for the
  entry of the audit log.
\<close>

record clock =
  at_entry :: pystr
  at_log :: pystr

definition attraction_data :: "clock \<Rightarrow> pydict \<Rightarrow> pydict" where
  "attraction_data clk data =
     [''name'' \<mapsto> get_or data ''name'' [],
      ''location'' \<mapsto> get_or data ''location'' lasa_shi,
      ''address'' \<mapsto> get_or data ''address'' [],
      ''description'' \<mapsto> get_or data ''description''
          (ascii ''Description for '' @ get_or data ''name'' (ascii ''Unknown'')),
      ''pub_timestamp'' \<mapsto> get_or data ''pub_timestamp'' (at_entry clk @ ascii ''+08:00''),
      ''best_comment'' \<mapsto> get_or data ''best_comment'' [],
      ''source_type'' \<mapsto> get_or data ''source_type'' (ascii ''crawler''),
      ''metrics'' \<mapsto> get_or data ''metrics'' (ascii ''{}''),
      ''ranking'' \<mapsto> get_or data ''ranking'' [],
      ''visitor_percentage'' \<mapsto> get_or data ''visitor_percentage'' []]"

definition log_data :: "clock \<Rightarrow> pystr \<Rightarrow> pystr \<Rightarrow> pystr \<Rightarrow> pystr \<Rightarrow> pydict" where
  "log_data clk log_id name reason_given weights_text =
     [''name'' \<mapsto> log_id,
      ''log_id'' \<mapsto> log_id,
      ''entity_name'' \<mapsto> name,
      ''reason'' \<mapsto> reason_given,
      ''weights'' \<mapsto> weights_text,
      ''timestamp'' \<mapsto> at_log clk]"

text \<open>
  \<open>tx_work\<close>. \<open>py_str\<close> is \<open>str\<close> on the weights, and \<open>reason_given\<close>
  the argument \<open>reason\<close>. The name and the location are
  those of \<open>attraction_data\<close>. Each \<open>return\<close> of the source after a statement that gave
  no row is a branch here.
\<close>

definition tx_work ::
  "('w \<Rightarrow> pystr) \<Rightarrow> clock \<Rightarrow> pydict \<Rightarrow> pystr \<Rightarrow> pystr \<Rightarrow> 'w \<Rightarrow> graph \<Rightarrow> graph" where
  "tx_work py_str clk data reason_given log_id weights g =
     (let name = get_or data ''name'' [];
          location = get_or data ''location'' lasa_shi
      in if name = [] \<or> location = [] then g
         else (case merge_node ''Attraction'' name (attraction_data clk data) g of
                 (g1, attraction_result) \<Rightarrow>
                   if attraction_result = 0 then g1
                   else (case merge_node ''City'' location [''name'' \<mapsto> location] g1 of
                           (g2, city_result) \<Rightarrow>
                             if city_result = 0 then g2
                             else (case merge_edge ''Attraction'' name ''LOCATED_IN'' ''City''
                                          location [''reason'' \<mapsto> reason_given] g2 of
                                     (g3, rel_result) \<Rightarrow>
                                       fst (merge_node ''UpdateLog'' log_id
                                              (log_data clk log_id name reason_given
                                                 (py_str weights)) g3)))))"

definition preprocess_data :: "pydict \<Rightarrow> pydict" where
  "preprocess_data data =
     (if data ''name'' = Some namucuo_alias then data(''name'' \<mapsto> namucuo) else data)"

definition update_knowledge_graph ::
  "('w \<Rightarrow> pystr) \<Rightarrow> clock \<Rightarrow> pydict \<Rightarrow> pystr \<Rightarrow> pystr \<Rightarrow> 'w \<Rightarrow> graph \<Rightarrow> py_error + graph" where
  "update_knowledge_graph py_str clk data log_id reason_given weights g =
     (if get_or data ''name'' [] = [] then Inl ValueError
      else Inr (tx_work py_str clk (preprocess_data data) reason_given log_id weights g))"

text \<open>The entries of the audit log, and the nodes that are not such entries.\<close>

definition audit_entries :: "graph \<Rightarrow> node list" where
  "audit_entries g = filter (\<lambda>n. n_label n = ''UpdateLog'') (g_nodes g)"

definition entity_nodes :: "graph \<Rightarrow> node list" where
  "entity_nodes g = filter (\<lambda>n. n_label n \<noteq> ''UpdateLog'') (g_nodes g)"

section \<open>Notions for the properties, and sample inputs\<close>

text \<open>
  A decoder for the lines that are a JSON number without sign, fraction or exponent, and a
  queue file of ten lines, the fourth of which is not JSON.
\<close>

definition loads_number :: "pystr \<Rightarrow> nat option" where
  "loads_number s =
     (if s = [] \<or> (hd s = 48 \<and> length s \<noteq> 1) then None else digits_val s)"

definition queue_lines :: "pystr list" where
  "queue_lines =
     [ascii ''11'' @ [10], ascii ''12'' @ [10], ascii ''13'' @ [10], ascii ''{bad'' @ [10],
      ascii ''15'' @ [10], ascii '' 16'' @ [10], ascii ''17'' @ [10], ascii ''18'' @ [10],
      ascii ''19'' @ [10], ascii ''20'']"

text \<open>The reading of a clock at a date and time, in microseconds since 0001-01-01.\<close>

definition clock_at :: "string \<Rightarrow> int" where
  "clock_at s = (case fromisoformat_std (ascii s) of Some d \<Rightarrow> ticks d | None \<Rightarrow> 0)"

text \<open>
  What the specification asks of a resolver on the empty input: the empty dictionary together
  with an explanation that no facts were supplied.
\<close>

definition reports_no_facts :: "py_error + resolution \<Rightarrow> bool" where
  "reports_no_facts r =
     (case r of
        Inr (Winner_explained w e) \<Rightarrow> w = empty_dict \<and> reason e = No_facts_supplied
      | _ \<Rightarrow> False)"

text \<open>
  A fact about the opening hours of a monastery, from the source of url \<open>u\<close> with
  weight \<open>w\<close> (absent when \<open>None\<close>), timestamp \<open>ts\<close> (absent when empty) and
  value \<open>v\<close>.
\<close>

definition sample_fact :: "string \<Rightarrow> real option \<Rightarrow> string \<Rightarrow> string \<Rightarrow> fact" where
  "sample_fact u w ts v =
     \<lparr>entity_name = Some (ascii ''Tashilhunpo''), attribute = Some (ascii ''opening hours''),
      content = Some (ascii v),
      source = Some \<lparr>kind = Some (ascii ''travel_guide''), url = Some (ascii u), weight = w\<rparr>,
      timestamp = (if ts = [] then None else Some (ascii ts))\<rparr>"

text \<open>
  The vocabulary of the specification for the weight calculator: the multiplier of the source
  type (0.8 for a crawler, 1 for manual and for unspecified sources), the clamp to the unit
  interval, and the rating of a metrics bundle.
\<close>

definition type_multiplier :: "pydict \<Rightarrow> real" where
  "type_multiplier data = (if data ''source_type'' = Some (ascii ''crawler'') then 0.8 else 1.0)"

definition clamp01 :: "real \<Rightarrow> real" where
  "clamp01 x = max 0 (min 1 x)"

definition ratings_of :: "(string \<rightharpoonup> real) \<Rightarrow> real" where
  "ratings_of metrics = (case metrics ''ratings'' of None \<Rightarrow> 0 | Some r \<Rightarrow> r)"

text \<open>Two relationships of the same source, target and type.\<close>

definition same_edge :: "'p relationship \<Rightarrow> 'p relationship \<Rightarrow> bool" where
  "same_edge a b =
     (source_name a = source_name b \<and> target_name a = target_name b \<and> rel_type a = rel_type b)"

text \<open>A proposed relationship; its properties are held as their serialised text.\<close>

definition sample_rel :: "pystr relationship" where
  "sample_rel = \<lparr>source_name = ascii ''Potala'', target_name = ascii ''Jokhang'',
     rel_type = ascii ''NEAR'', properties = ascii ''reason=close''\<rparr>"

text \<open>The data of an entity from a crawler, with the given \<open>pub_timestamp\<close>.\<close>

definition rated_entity :: "string \<Rightarrow> pydict" where
  "rated_entity ts =
     (if ts = [] then [''source_type'' \<mapsto> ascii ''crawler'']
      else [''source_type'' \<mapsto> ascii ''crawler'', ''pub_timestamp'' \<mapsto> ascii ts])"

text \<open>
  The final score that \<open>resolve_conflict_with_hybrid\<close> gives a fact, and the entry that
  its explanation holds for the fact.
\<close>

definition hybrid_score :: "(pystr \<Rightarrow> datetime option) \<Rightarrow> int \<Rightarrow> fact \<Rightarrow> real" where
  "hybrid_score fromisoformat now x = fst (snd (score_fact fromisoformat now x))"


text \<open>A fact whose source carries a url, and that url.\<close>

definition has_url :: "fact \<Rightarrow> bool" where
  "has_url x = (case source x of None \<Rightarrow> False | Some s \<Rightarrow> url s \<noteq> None)"

definition url_of :: "fact \<Rightarrow> pystr" where
  "url_of x = source_url [] x"

text \<open>The winner that a resolver returns, if it returns at all.\<close>

definition chosen :: "py_error + resolution \<Rightarrow> fact option" where
  "chosen r = (case r of Inl _ \<Rightarrow> None | Inr x \<Rightarrow> Some (winner_of x))"


text \<open>
  A merge has nothing left to do on a state where it has run before: some node of the label
  has the name, and every such node already holds the properties. Likewise for the edges
  between a pair of nodes.
\<close>

definition settled_node :: "string \<Rightarrow> pystr \<Rightarrow> pydict \<Rightarrow> graph \<Rightarrow> bool" where
  "settled_node l nm p g =
     (list_ex (node_matches l nm) (g_nodes g)
      \<and> list_all (\<lambda>n. \<not> node_matches l nm n \<or> n_props n ++ p = n_props n) (g_nodes g))"

definition settled_pair :: "string \<Rightarrow> pydict \<Rightarrow> edge list \<Rightarrow> nat \<times> nat \<Rightarrow> bool" where
  "settled_pair t p es ij =
     (list_ex (edge_matches (fst ij) t (snd ij)) es
      \<and> list_all (\<lambda>e. \<not> edge_matches (fst ij) t (snd ij) e \<or> e_props e ++ p = e_props e) es)"

text \<open>
  An empty store, the data of an entity with its \<open>pub_timestamp\<close>, two calls a day apart
  with the readings of their clocks, and the same update run once and twice under one
  \<open>log_id\<close>.
\<close>

definition empty_store :: graph where
  "empty_store = \<lparr>g_nodes = [], g_edges = []\<rparr>"

definition potala :: pydict where
  "potala =
     [''name'' \<mapsto> ascii ''Potala Palace'',
      ''location'' \<mapsto> lasa_shi,
      ''pub_timestamp'' \<mapsto> ascii ''2025-06-27T22:39:56+08:00'',
      ''source_type'' \<mapsto> ascii ''test'']"

definition clock1 :: clock where
  "clock1 = \<lparr>at_entry = ascii ''2025-07-01T10:00:00.000120+08:00'',
              at_log = ascii ''2025-07-01T10:00:00.000480+08:00''\<rparr>"

definition clock2 :: clock where
  "clock2 = \<lparr>at_entry = ascii ''2025-07-02T09:30:00.000150+08:00'',
              at_log = ascii ''2025-07-02T09:30:00.000520+08:00''\<rparr>"

definition run_update :: "clock \<Rightarrow> graph \<Rightarrow> py_error + graph" where
  "run_update clk g =
     update_knowledge_graph (\<lambda>w. w) clk potala (ascii ''Potala Palace_2025-07-01'')
       (ascii ''Initial import'') (ascii ''{rules_valid: 1.0}'') g"

definition stored_once :: graph where
  "stored_once =
     tx_work (\<lambda>w. w) clock1 (preprocess_data potala) (ascii ''Initial import'')
       (ascii ''Potala Palace_2025-07-01'') (ascii ''{rules_valid: 1.0}'') empty_store"

definition stored_twice :: graph where
  "stored_twice =
     tx_work (\<lambda>w. w) clock2 (preprocess_data potala) (ascii ''Initial import'')
       (ascii ''Potala Palace_2025-07-01'') (ascii ''{rules_valid: 1.0}'') stored_once"

definition run_update_twice :: "py_error + graph" where
  "run_update_twice =
     (case run_update clock1 empty_store of Inl e \<Rightarrow> Inl e | Inr g \<Rightarrow> run_update clock2 g)"


section \<open>Evaluation\<close>

text \<open>The equations that evaluate the reader of dates and the clock on a literal.\<close>

lemmas dt_eval = fromisoformat_std_def parse_date_def parse_time_def parse_offset_def
  replace_Z_def ascii_def days_before_year_def days_before_month_def days_in_month_def
  is_leap_def usec_per_day_def clock_at_def

text \<open>The equations that evaluate the sample facts and the hybrid resolver.\<close>

lemmas fact_eval = sample_fact_def source_weight_def source_url_def content_value_def
  url_of_def has_url_def

lemmas hybrid_eval = resolve_conflict_with_hybrid_def score_fact_def time_factors_def
  sub_days_def sorted_reverse_def first_item_def explain_scores_def Let_def

section \<open>Properties of the conflict queue\<close>

lemma read_lines_append:
  "read_lines loads (xs @ ys) =
     (fst (read_lines loads xs) @ fst (read_lines loads ys),
      snd (read_lines loads xs) @ snd (read_lines loads ys))"
  by (induction xs) (auto split: prod.splits option.splits)

lemma read_lines_all_valid:
  "map (\<lambda>l. loads (strip l)) ls = map Some rs \<Longrightarrow> read_lines loads ls = (rs, [])"
proof (induction ls arbitrary: rs)
  case Nil
  then show ?case by simp
next
  case (Cons l ls)
  then obtain r rs' where rs: "rs = r # rs'" by (cases rs) auto
  with Cons.prems have "loads (strip l) = Some r" "map (\<lambda>l. loads (strip l)) ls = map Some rs'"
    by auto
  with Cons.IH rs show ?case by simp
qed

text \<open>
  Claim C10. Reading the conflict queue tolerates a malformed line: for a file of ten lines
  of which one does not decode and the nine others do, \<open>get_conflict_log\<close> returns the
  nine decoded records in the order of the file, logs one error, for the malformed line, and
  reads on to the end of the file.
\<close>

theorem get_conflict_log_skips_malformed_line:
  assumes len: "length (pre @ bad # post) = 10"
    and bad: "loads (strip bad) = None"
    and good: "map (\<lambda>l. loads (strip l)) (pre @ post) = map Some records"
  shows "get_conflict_log loads (Lines (pre @ bad # post)) = (records, [Line_failed bad])
         \<and> length records = 9"
proof -
  from good have split:
    "map (\<lambda>l. loads (strip l)) pre = map Some (take (length pre) records)"
    "map (\<lambda>l. loads (strip l)) post = map Some (drop (length pre) records)"
    by (simp_all add: take_map [symmetric] drop_map [symmetric] del: take_map drop_map)
       (metis append_eq_conv_conj length_map map_append)+
  have "length records = length (pre @ post)"
    using good by (metis length_map)
  with len have n: "length records = 9" by simp
  have pre: "read_lines loads pre = (take (length pre) records, [])"
    using split(1) by (rule read_lines_all_valid)
  have post: "read_lines loads post = (drop (length pre) records, [])"
    using split(2) by (rule read_lines_all_valid)
  have "read_lines loads (bad # post) = (drop (length pre) records, [Line_failed bad])"
    using bad post by simp
  then have "read_lines loads (pre @ bad # post) = (records, [Line_failed bad])"
    using pre by (simp add: read_lines_append)
  with n show ?thesis by (simp add: get_conflict_log_def)
qed

theorem get_conflict_log_skips_malformed_line_witness:
  "get_conflict_log loads_number (Lines queue_lines)
     = ([11, 12, 13, 15, 16, 17, 18, 19, 20], [Line_failed (ascii ''{bad'' @ [10])])"
proof -
  have len: "length (take 3 queue_lines @ (ascii ''{bad'' @ [10]) # drop 4 queue_lines) = 10"
    by (simp add: queue_lines_def)
  have bad: "loads_number (strip (ascii ''{bad'' @ [10])) = None"
    by (simp add: loads_number_def strip_def is_space_def ascii_def)
  have good: "map (\<lambda>l. loads_number (strip l)) (take 3 queue_lines @ drop 4 queue_lines)
                = map Some [11, 12, 13, 15, 16, 17, 18, 19, 20]"
    by (simp add: queue_lines_def loads_number_def strip_def is_space_def ascii_def)
  have eq: "take 3 queue_lines @ (ascii ''{bad'' @ [10]) # drop 4 queue_lines = queue_lines"
    by (simp add: queue_lines_def)
  show ?thesis
    using get_conflict_log_skips_malformed_line [OF len bad good] by (simp only: eq)
qed

section \<open>Properties of the resolvers on the empty input\<close>

text \<open>
  Claim C6 fails as stated: on the empty list \<open>resolve_conflict_weight_first\<close> returns the
  empty dictionary alone, with no explanation.
\<close>

theorem weight_first_empty_without_explanation:
  "\<not> reports_no_facts (resolve_conflict_weight_first [])"
  by (simp add: reports_no_facts_def resolve_conflict_weight_first_def)

text \<open>
  Claim C6, amended. On the empty list none of the three resolvers raises and each returns
  the empty dictionary as the ``no winner'' value; \<open>resolve_conflict_with_hybrid\<close> alone
  returns with it an explanation, which states that no facts were supplied.
\<close>

theorem resolvers_on_empty_input:
  "resolve_conflict_weight_first [] = Inr (Winner empty_dict)
   \<and> resolve_conflict_latest_first fromisoformat [] = Inr (Winner empty_dict)
   \<and> resolve_conflict_with_hybrid fromisoformat now []
       = Inr (Winner_explained empty_dict \<lparr>reason = No_facts_supplied, scores = None\<rparr>)
   \<and> reports_no_facts (resolve_conflict_with_hybrid fromisoformat now [])"
  by (simp add: reports_no_facts_def resolve_conflict_weight_first_def
      resolve_conflict_latest_first_def resolve_conflict_with_hybrid_def)

section \<open>The default weight\<close>

text \<open>
  Claim C8 asks that a fact without a source weight counts as 0.5 under every strategy, so
  that under \<open>resolve_conflict_weight_first\<close> it beats a fact of weight 0.4. The code
  reads the weight there with the default 0, and the fact of weight 0.4 wins.
\<close>

theorem weight_first_absent_weight_loses_to_04:
  "resolve_conflict_weight_first
     [sample_fact ''http://a'' (Some 0.4) [] ''v'', sample_fact ''http://b'' None [] ''v'']
   = Inr (Winner (sample_fact ''http://a'' (Some 0.4) [] ''v''))"
  by (simp add: resolve_conflict_weight_first_def sorted_reverse_def first_item_def
      source_weight_def sample_fact_def)

section \<open>Properties of the relationship conflict check\<close>

text \<open>
  Claim C5 fails as stated: an existing edge of the same source, target and type whose
  similarity to the proposal is exactly 0.7 is not flagged.
\<close>

theorem similarity_at_threshold_not_flagged:
  "same_edge sample_rel sample_rel
   \<and> compute_semantic_similarity (\<lambda>a b. Some 0.7) (properties sample_rel) (properties sample_rel) \<ge> 0.7
   \<and> \<not> check_relationship_conflict (\<lambda>p. p) (\<lambda>a b. Some 0.7) sample_rel [sample_rel]"
  by (simp add: same_edge_def compute_semantic_similarity_def sample_rel_def ascii_def)

text \<open>
  Claim C5, amended. \<open>check_relationship_conflict\<close> flags a conflict exactly when some
  existing edge has the same source, target and type and the similarity of the serialised
  properties of the two edges is strictly above 0.7; so similarity 0 is never flagged.
\<close>

theorem check_relationship_conflict_strict_threshold:
  "check_relationship_conflict dumps encode_dot rel existing_rels \<longleftrightarrow>
     (\<exists>existing \<in> set existing_rels. same_edge rel existing
        \<and> compute_semantic_similarity encode_dot (dumps (properties rel))
              (dumps (properties existing)) > 0.7)"
  by (induction existing_rels) (auto simp: same_edge_def)

theorem check_relationship_conflict_strict_threshold_witness:
  "check_relationship_conflict (\<lambda>p. p) (\<lambda>a b. Some 0.8) sample_rel [sample_rel]
   \<and> \<not> check_relationship_conflict (\<lambda>p. p) (\<lambda>a b. Some 0) sample_rel [sample_rel]"
  using check_relationship_conflict_strict_threshold
          [of "\<lambda>p. p" "\<lambda>a b. Some 0.8" sample_rel "[sample_rel]"]
        check_relationship_conflict_strict_threshold
          [of "\<lambda>p. p" "\<lambda>a b. Some 0" sample_rel "[sample_rel]"]
  by (simp add: same_edge_def compute_semantic_similarity_def sample_rel_def ascii_def)

section \<open>Properties of the weight calculator\<close>

text \<open>
  Claim C7 fails as stated: for a rating of 10 from a crawler, with a timestamp of age zero,
  the code returns 1, and the formula of the claim gives 0.8.
\<close>

theorem dynamic_weight_differs_from_formula:
  "compute_dynamic_weight fromisoformat_std (clock_at ''2024-01-01T00:00:00'')
     [''source_type'' \<mapsto> ascii ''crawler'', ''pub_timestamp'' \<mapsto> ascii ''2024-01-01T00:00:00Z'']
     [''ratings'' \<mapsto> 10] = 1
   \<and> spec_dynamic_weight 10 0.8 0 = 0.8"
  by (simp add: compute_dynamic_weight_def spec_dynamic_weight_def get_or_def sub_days_def dt_eval)

lemma clamp01_id: "0 \<le> x \<Longrightarrow> x \<le> 1 \<Longrightarrow> clamp01 x = x"
  by (simp add: clamp01_def)

lemma type_multiplier_range: "0 \<le> type_multiplier data \<and> type_multiplier data \<le> 1"
  by (simp add: type_multiplier_def)

lemma compute_dynamic_weight_no_timestamp:
  "get_or data ''pub_timestamp'' [] = [] \<Longrightarrow>
   compute_dynamic_weight f now data metrics
     = clamp01 (ratings_of metrics / 5 * type_multiplier data)"
  by (simp add: compute_dynamic_weight_def clamp01_def ratings_of_def type_multiplier_def Let_def
      split: option.splits)

lemma compute_dynamic_weight_unparsed:
  "get_or data ''pub_timestamp'' [] \<noteq> [] \<Longrightarrow>
   f (replace_Z (get_or data ''pub_timestamp'' [])) = None \<Longrightarrow>
   compute_dynamic_weight f now data metrics = 0"
  by (simp add: compute_dynamic_weight_def Let_def)

lemma compute_dynamic_weight_aware:
  "get_or data ''pub_timestamp'' [] \<noteq> [] \<Longrightarrow>
   f (replace_Z (get_or data ''pub_timestamp'' [])) = Some (Aware t) \<Longrightarrow>
   compute_dynamic_weight f now data metrics
     = clamp01 (ratings_of metrics / 5 * type_multiplier data
                 * max 0 (1 - real_of_int ((now - t) div usec_per_day) / 365))"
  by (simp add: compute_dynamic_weight_def clamp01_def ratings_of_def type_multiplier_def
      sub_days_def Let_def split: option.splits)

lemma compute_dynamic_weight_range:
  "0 \<le> compute_dynamic_weight f now data metrics
   \<and> compute_dynamic_weight f now data metrics \<le> 1"
  by (simp add: compute_dynamic_weight_def Let_def split: option.splits sum.splits)

lemma spec_dynamic_weight_in_range:
  assumes "0 \<le> r" "r \<le> 5" "0 \<le> m" "m \<le> 1" "0 \<le> age"
  shows "clamp01 (r / 5 * m * max 0 (1 - real_of_int age / 365)) = spec_dynamic_weight r m age"
proof -
  let ?fr = "max 0 (1 - real_of_int age / 365)"
  have fr: "0 \<le> ?fr" "?fr \<le> 1" using assms(5) by simp_all
  have b: "0 \<le> r / 5" "r / 5 \<le> 1" using assms(1,2) by simp_all
  have bm0: "0 \<le> r / 5 * m"
    using b(1) assms(3) by (rule mult_nonneg_nonneg)
  have bm1: "r / 5 * m \<le> 1"
    using b(2) assms(3,4) by (rule mult_le_one)
  have "0 \<le> r / 5 * m * ?fr" using bm0 fr(1) by (rule mult_nonneg_nonneg)
  moreover have "r / 5 * m * ?fr \<le> 1" using bm1 fr by (rule mult_le_one)
  ultimately have "clamp01 (r / 5 * m * ?fr) = r / 5 * m * ?fr" by (rule clamp01_id)
  moreover have "max 0 (min 1 (r / 5)) = r / 5" using b by simp
  ultimately show ?thesis by (simp add: spec_dynamic_weight_def)
qed

text \<open>
  Claim C7, amended. \<open>compute_dynamic_weight\<close> returns a weight between 0 and 1. It is
  the product of rating/5, of the multiplier of the source type and of the freshness
  \<open>max 0 (1 - age_days/365)\<close>, clamped to the unit interval as a whole: the clamp is not
  applied to rating/5 first. The freshness is left out when there is no timestamp, and is
  taken from a timestamp that carries a UTC offset. When a timestamp is present and does not
  parse, the result is 0. For a rating between 0 and 5 and a timestamp that is not in the
  future, the result is the formula of the specification.
\<close>

theorem compute_dynamic_weight_clamps_the_product:
  assumes ts: "ts = get_or data ''pub_timestamp'' []"
  shows "0 \<le> compute_dynamic_weight f now data metrics
       \<and> compute_dynamic_weight f now data metrics \<le> 1
       \<and> (ts = [] \<longrightarrow>
            compute_dynamic_weight f now data metrics
              = clamp01 (ratings_of metrics / 5 * type_multiplier data))
       \<and> (ts \<noteq> [] \<and> f (replace_Z ts) = None \<longrightarrow>
            compute_dynamic_weight f now data metrics = 0)
       \<and> (ts \<noteq> [] \<and> f (replace_Z ts) = Some (Aware t) \<longrightarrow>
            compute_dynamic_weight f now data metrics
              = clamp01 (ratings_of metrics / 5 * type_multiplier data
                          * max 0 (1 - real_of_int ((now - t) div usec_per_day) / 365)))
       \<and> (ts \<noteq> [] \<and> f (replace_Z ts) = Some (Aware t)
            \<and> 0 \<le> ratings_of metrics \<and> ratings_of metrics \<le> 5 \<and> t \<le> now \<longrightarrow>
            compute_dynamic_weight f now data metrics
              = spec_dynamic_weight (ratings_of metrics) (type_multiplier data)
                  ((now - t) div usec_per_day))"
proof -
  have age: "t \<le> now \<Longrightarrow> 0 \<le> (now - t) div usec_per_day"
    by (simp add: usec_per_day_def)
  show ?thesis
    unfolding ts
    using compute_dynamic_weight_range [of f now data metrics]
      compute_dynamic_weight_no_timestamp [of data f now metrics]
      compute_dynamic_weight_unparsed [of data f now metrics]
      compute_dynamic_weight_aware [of data f t now metrics]
      spec_dynamic_weight_in_range [of "ratings_of metrics" "type_multiplier data"
        "(now - t) div usec_per_day"]
      type_multiplier_range [of data] age
    by auto
qed

theorem compute_dynamic_weight_clamps_the_product_witness:
  "compute_dynamic_weight fromisoformat_std (clock_at ''2024-03-01T12:00:00'')
     (rated_entity ''2023-12-01T00:00:00Z'') [''ratings'' \<mapsto> 4] = 4 / 5 * 0.8 * (1 - 91 / 365)
   \<and> compute_dynamic_weight fromisoformat_std (clock_at ''2024-03-01T12:00:00'')
     (rated_entity ''2023-12-01T00:00:00Z'') [''ratings'' \<mapsto> 4] = spec_dynamic_weight 4 0.8 91
   \<and> compute_dynamic_weight fromisoformat_std (clock_at ''2024-03-01T12:00:00'')
     (rated_entity ''last week'') [''ratings'' \<mapsto> 4] = 0
   \<and> compute_dynamic_weight fromisoformat_std (clock_at ''2024-03-01T12:00:00'')
     (rated_entity []) [''ratings'' \<mapsto> 4] = 0.64"
proof -
  have p: "fromisoformat_std (replace_Z (ascii ''2023-12-01T00:00:00Z''))
             = Some (Aware (clock_at ''2023-12-01T00:00:00''))"
    by (simp add: dt_eval)
  have q: "fromisoformat_std (replace_Z (ascii ''last week'')) = None"
    by (simp add: dt_eval)
  have d: "(clock_at ''2024-03-01T12:00:00'' - clock_at ''2023-12-01T00:00:00'') div usec_per_day = 91"
    by (simp add: dt_eval)
  have le: "clock_at ''2023-12-01T00:00:00'' \<le> clock_at ''2024-03-01T12:00:00''"
    by (simp add: dt_eval)
  have g1: "get_or (rated_entity ''2023-12-01T00:00:00Z'') ''pub_timestamp'' []
              = ascii ''2023-12-01T00:00:00Z''"
    by (simp add: rated_entity_def get_or_def)
  have g2: "get_or (rated_entity ''last week'') ''pub_timestamp'' [] = ascii ''last week''"
    by (simp add: rated_entity_def get_or_def)
  have g3: "get_or (rated_entity []) ''pub_timestamp'' [] = []"
    by (simp add: rated_entity_def get_or_def)
  have ne: "ascii ''2023-12-01T00:00:00Z'' \<noteq> []" "ascii ''last week'' \<noteq> []"
    by (simp_all add: ascii_def)
  have m: "type_multiplier (rated_entity ''2023-12-01T00:00:00Z'') = 0.8"
     "type_multiplier (rated_entity []) = 0.8"
    by (simp_all add: type_multiplier_def rated_entity_def)
  have r: "ratings_of [''ratings'' \<mapsto> 4] = 4" by (simp add: ratings_of_def)
  note a = compute_dynamic_weight_clamps_the_product
             [OF g1 [symmetric], of fromisoformat_std "clock_at ''2024-03-01T12:00:00''"
                "[''ratings'' \<mapsto> 4]" "clock_at ''2023-12-01T00:00:00''"]
  note b = compute_dynamic_weight_clamps_the_product
             [OF g2 [symmetric], of fromisoformat_std "clock_at ''2024-03-01T12:00:00''"
                "[''ratings'' \<mapsto> 4]" 0]
  note c = compute_dynamic_weight_clamps_the_product
             [OF g3 [symmetric], of fromisoformat_std "clock_at ''2024-03-01T12:00:00''"
                "[''ratings'' \<mapsto> 4]" 0]
  have A: "compute_dynamic_weight fromisoformat_std (clock_at ''2024-03-01T12:00:00'')
     (rated_entity ''2023-12-01T00:00:00Z'') [''ratings'' \<mapsto> 4]
       = spec_dynamic_weight 4 0.8 91"
    using a p ne le by (simp add: d m r)
  have B: "compute_dynamic_weight fromisoformat_std (clock_at ''2024-03-01T12:00:00'')
     (rated_entity ''last week'') [''ratings'' \<mapsto> 4] = 0"
    using b q ne by simp
  have C: "compute_dynamic_weight fromisoformat_std (clock_at ''2024-03-01T12:00:00'')
     (rated_entity []) [''ratings'' \<mapsto> 4] = 0.64"
    using c by (simp add: m r clamp01_def)
  have S: "spec_dynamic_weight 4 0.8 91 = 4 / 5 * 0.8 * (1 - 91 / 365)"
    by (simp add: spec_dynamic_weight_def)
  show ?thesis using A B C S by simp
qed

section \<open>Properties of the sort\<close>

lemma last_filter_keep:
  "xs \<noteq> [] \<Longrightarrow> P (last xs) \<Longrightarrow> last (filter P xs) = last xs"
  by (induction xs) (auto simp: filter_empty_conv split: if_splits)

lemma sorted_key_last_max:
  "sorted (map k xs) \<Longrightarrow> x \<in> set xs \<Longrightarrow> k x \<le> k (last xs)"
  by (induction xs) (auto split: if_splits)

lemma hd_filter_split:
  assumes "filter P xs \<noteq> []"
  shows "\<exists>ys zs. xs = ys @ hd (filter P xs) # zs \<and> (\<forall>y\<in>set ys. \<not> P y)"
  using assms
proof (induction xs)
  case Nil
  then show ?case by simp
next
  case (Cons x xs)
  show ?case
  proof (cases "P x")
    case True
    then have "x # xs = [] @ hd (filter P (x # xs)) # xs \<and> (\<forall>y\<in>set []. \<not> P y)" by simp
    then show ?thesis by blast
  next
    case False
    with Cons.prems have "filter P xs \<noteq> []" by simp
    from Cons.IH [OF this] obtain ys zs
      where "xs = ys @ hd (filter P xs) # zs" "\<forall>y\<in>set ys. \<not> P y" by blast
    with False have "x # xs = (x # ys) @ hd (filter P (x # xs)) # zs \<and> (\<forall>y\<in>set (x # ys). \<not> P y)"
      by simp
    then show ?thesis by blast
  qed
qed

text \<open>The head of the sorted list is the first item of greatest key.\<close>

lemma sorted_reverse_head:
  assumes "xs \<noteq> []"
  shows "\<exists>w rest. sorted_reverse k xs = w # rest \<and> w \<in> set xs
           \<and> (\<forall>x\<in>set xs. k x \<le> k w)
           \<and> (\<exists>ys zs. xs = ys @ w # zs \<and> (\<forall>y\<in>set ys. k y < k w))"
proof -
  let ?S = "sort_key k (rev xs)"
  have ne: "?S \<noteq> []" using assms by (metis length_0_conv length_rev length_sort)
  let ?w = "last ?S"
  have w_in: "?w \<in> set xs" using ne last_in_set [of ?S] by simp
  have mx: "\<forall>x\<in>set xs. k x \<le> k ?w"
    using sorted_key_last_max [of k ?S] by simp
  let ?P = "\<lambda>y. k y = k ?w"
  have "filter ?P ?S = filter ?P (rev xs)" by (rule sort_key_stable)
  then have "last (filter ?P ?S) = last (rev (filter ?P xs))" by (simp add: rev_filter)
  moreover have "last (filter ?P ?S) = ?w" using ne by (simp add: last_filter_keep)
  moreover have fne: "filter ?P xs \<noteq> []" using w_in by (auto simp: filter_empty_conv)
  ultimately have w_hd: "?w = hd (filter ?P xs)" by (simp add: last_rev)
  from hd_filter_split [OF fne] obtain ys zs
    where sp: "xs = ys @ ?w # zs" "\<forall>y\<in>set ys. k y \<noteq> k ?w"
    using w_hd by auto
  have "\<forall>y\<in>set ys. k y < k ?w"
  proof
    fix y assume y: "y \<in> set ys"
    then have "y \<in> set (ys @ last ?S # zs)" by simp
    then have "y \<in> set xs" using sp(1) by simp
    with mx have "k y \<le> k ?w" by blast
    with sp(2) y show "k y < k ?w" by force
  qed
  moreover have "rev ?S = rev (butlast ?S @ [?w])"
    using ne by simp
  then have "sorted_reverse k xs = ?w # rev (butlast ?S)"
    by (simp add: sorted_reverse_def)
  ultimately show ?thesis using w_in mx sp(1) by blast
qed





section \<open>Properties of the resolvers on non-empty input\<close>

lemma first_item_Cons: "first_item (x # xs) = Inr x"
  by (simp add: first_item_def)

lemma fst_score_fact: "fst (score_fact f now x) = x"
  by (simp add: score_fact_def Let_def split: prod.splits)

text \<open>
  On a non-empty list \<open>resolve_conflict_weight_first\<close> returns a fact of the list, the
  first of greatest weight, an absent weight counting as 0.
\<close>

lemma weight_first_winner:
  assumes "xs \<noteq> []"
  shows "\<exists>w. resolve_conflict_weight_first xs = Inr (Winner w) \<and> w \<in> set xs
           \<and> (\<forall>x\<in>set xs. source_weight 0 x \<le> source_weight 0 w)
           \<and> (\<exists>ys zs. xs = ys @ w # zs \<and> (\<forall>y\<in>set ys. source_weight 0 y < source_weight 0 w))"
proof -
  from sorted_reverse_head [OF assms, of "source_weight 0"] obtain w rest
    where h: "sorted_reverse (source_weight 0) xs = w # rest" "w \<in> set xs"
      "\<forall>x\<in>set xs. source_weight 0 x \<le> source_weight 0 w"
      "\<exists>ys zs. xs = ys @ w # zs \<and> (\<forall>y\<in>set ys. source_weight 0 y < source_weight 0 w)"
    by blast
  have "resolve_conflict_weight_first xs = Inr (Winner w)"
    using assms h(1) by (simp add: resolve_conflict_weight_first_def first_item_Cons)
  with h show ?thesis by blast
qed

text \<open>
  On a non-empty list whose timestamps are all without UTC offset (or absent or unparsable),
  or all with one, \<open>resolve_conflict_latest_first\<close> returns a fact of the list, the first
  of latest timestamp. On a list that holds both kinds it raises.
\<close>

lemma latest_first_winner:
  assumes "xs \<noteq> []"
    and "list_all (\<lambda>x. is_naive (parse_timestamp f x)) xs
         \<or> list_all (\<lambda>x. is_aware (parse_timestamp f x)) xs"
  shows "\<exists>w. resolve_conflict_latest_first f xs = Inr (Winner w) \<and> w \<in> set xs
           \<and> (\<forall>x\<in>set xs. ticks (parse_timestamp f x) \<le> ticks (parse_timestamp f w))
           \<and> (\<exists>ys zs. xs = ys @ w # zs
                 \<and> (\<forall>y\<in>set ys. ticks (parse_timestamp f y) < ticks (parse_timestamp f w)))"
proof -
  let ?k = "\<lambda>x. ticks (parse_timestamp f x)"
  from sorted_reverse_head [OF assms(1), of ?k] obtain w rest
    where h: "sorted_reverse ?k xs = w # rest" "w \<in> set xs"
      "\<forall>x\<in>set xs. ?k x \<le> ?k w"
      "\<exists>ys zs. xs = ys @ w # zs \<and> (\<forall>y\<in>set ys. ?k y < ?k w)"
    by blast
  have "resolve_conflict_latest_first f xs = Inr (Winner w)"
    using assms h(1)
    by (simp add: resolve_conflict_latest_first_def sorted_reverse_dt_def first_item_Cons)
  with h show ?thesis by blast
qed

lemma latest_first_mixed:
  assumes "\<not> list_all (\<lambda>x. is_naive (parse_timestamp f x)) xs"
    and "\<not> list_all (\<lambda>x. is_aware (parse_timestamp f x)) xs"
  shows "resolve_conflict_latest_first f xs = Inl TypeError"
proof -
  from assms(1) have "xs \<noteq> []" by auto
  with assms show ?thesis
    by (simp add: resolve_conflict_latest_first_def sorted_reverse_dt_def)
qed


text \<open>
  Claim C2 asks that every resolver returns a winner from the input on every non-empty list.
  \<open>resolve_conflict_latest_first\<close> does not on a list that holds a timestamp with a UTC
  offset (here the suffix \<open>Z\<close>, which the code turns into \<open>+00:00\<close>) and a fact
  without timestamp: the key of the one is aware, the key of the other is the naive
  \<open>datetime.min\<close>, and the sort raises TypeError.
\<close>

theorem latest_first_raises_on_offset_and_missing:
  "resolve_conflict_latest_first fromisoformat_std
     [sample_fact ''http://a'' (Some 0.7) ''2023-05-20T09:15:00Z'' ''v'',
      sample_fact ''http://b'' (Some 0.7) [] ''v'']
   = Inl TypeError"
  by (simp add: resolve_conflict_latest_first_def sorted_reverse_dt_def parse_timestamp_def
      datetime_min_def sample_fact_def dt_eval)

text \<open>
  Claim C3 asks that a fact whose timestamp does not parse sorts below every fact with a
  valid timestamp. Against a valid timestamp with a UTC offset the call does not return: the
  unparsable timestamp gives the naive \<open>datetime.min\<close>, and the sort raises TypeError.
\<close>

theorem latest_first_raises_on_unparsable_and_offset:
  "resolve_conflict_latest_first fromisoformat_std
     [sample_fact ''http://b'' (Some 0.7) ''last week'' ''v'',
      sample_fact ''http://a'' (Some 0.7) ''2023-05-20T09:15:00Z'' ''v'']
   = Inl TypeError"
  by (simp add: resolve_conflict_latest_first_def sorted_reverse_dt_def parse_timestamp_def
      datetime_min_def sample_fact_def dt_eval)

section \<open>Properties of the hybrid explanation\<close>










section \<open>Properties of the hybrid score\<close>

lemma time_factors_cases:
  "timestamp x = None \<Longrightarrow> snd (time_factors f now x) = 0.3"
  "timestamp x = Some [] \<Longrightarrow> snd (time_factors f now x) = 0.3"
  "timestamp x = Some ts \<Longrightarrow> ts \<noteq> [] \<Longrightarrow> f (replace_Z ts) = None \<Longrightarrow>
     snd (time_factors f now x) = 0.3"
  "timestamp x = Some ts \<Longrightarrow> ts \<noteq> [] \<Longrightarrow> f (replace_Z ts) = Some (Aware t) \<Longrightarrow>
     snd (time_factors f now x) = 0.3"
  "timestamp x = Some ts \<Longrightarrow> ts \<noteq> [] \<Longrightarrow> f (replace_Z ts) = Some (Naive t) \<Longrightarrow>
     snd (time_factors f now x)
       = 1 - min 1 (real_of_int ((now - t) div usec_per_day) / 365) * 0.7"
  by (simp_all add: time_factors_def sub_days_def)


lemma hybrid_score_formula:
  "hybrid_score f now x
     = 0.6 * source_weight 0.5 x + 0.3 * snd (time_factors f now x)
       + 0.1 * (min 1 (real (length (content_value x)) / 200) * 0.5 + 0.5)"
  by (simp add: hybrid_score_def score_fact_def Let_def split: prod.splits)




section \<open>Equal weights and the age of the facts\<close>

lemma hybrid_two:
  "chosen (resolve_conflict_with_hybrid f now [a, b])
     = Some (if hybrid_score f now b \<le> hybrid_score f now a then a else b)"
proof -
  obtain sa da where a: "score_fact f now a = (a, sa, da)"
    using fst_score_fact [of f now a] by (cases "score_fact f now a") auto
  obtain sb db where b: "score_fact f now b = (b, sb, db)"
    using fst_score_fact [of f now b] by (cases "score_fact f now b") auto
  show ?thesis
    by (simp add: chosen_def resolve_conflict_with_hybrid_def sorted_reverse_def first_item_def
        hybrid_score_def a b)
qed

lemma days_apart:
  assumes "n * usec_per_day \<le> tb - ta"
  shows "(now - tb) div usec_per_day + n \<le> (now - ta) div usec_per_day"
proof -
  have "(now - tb) + n * usec_per_day \<le> now - ta" using assms by simp
  then have "((now - tb) + n * usec_per_day) div usec_per_day \<le> (now - ta) div usec_per_day"
    by (rule zdiv_mono1) (simp add: usec_per_day_def)
  then show ?thesis by (simp add: usec_per_day_def)
qed

text \<open>
  Claim C9 fails as stated: the freshness is the same for every fact that is a year old or
  more. Two facts of weight 0.7 and values of equal length, dated three years apart and both
  older than a year, have equal scores, and the one listed first wins: here the older one.
\<close>

theorem hybrid_old_facts_tie:
  "chosen
     (resolve_conflict_with_hybrid fromisoformat_std (clock_at ''2025-01-01T00:00:00'')
        [sample_fact ''http://travel-guide.com/shigatse'' (Some 0.7) ''2020-06-10T11:30:00''
           ''9:00-18:00 in summer'',
         sample_fact ''http://tourist-handbook.com/shigatse'' (Some 0.7) ''2023-06-10T11:30:00''
           ''9:00-18:00 all year!''])
   = Some (sample_fact ''http://travel-guide.com/shigatse'' (Some 0.7) ''2020-06-10T11:30:00''
           ''9:00-18:00 in summer'')"
  by (simp add: chosen_def hybrid_eval fact_eval dt_eval)

text \<open>
  Claim C9, amended. For two facts of equal weight and values of equal length whose
  timestamps, without UTC offset, lie three years apart: when the newer fact is less than
  365 days old at the time of the call, \<open>resolve_conflict_with_hybrid\<close> selects it in
  either order of the list; when it is 365 days old or more the two scores are equal and the
  fact listed first is selected.
\<close>

theorem hybrid_prefers_newer_within_a_year:
  assumes w: "source_weight 0.5 a = source_weight 0.5 b"
    and l: "length (content_value a) = length (content_value b)"
    and ta: "timestamp a = Some sa" "sa \<noteq> []" "f (replace_Z sa) = Some (Naive ta)"
    and tb: "timestamp b = Some sb" "sb \<noteq> []" "f (replace_Z sb) = Some (Naive tb)"
    and apart: "1095 * usec_per_day \<le> tb - ta"
  shows "((now - tb) div usec_per_day < 365 \<longrightarrow>
            chosen (resolve_conflict_with_hybrid f now [a, b]) = Some b
          \<and> chosen (resolve_conflict_with_hybrid f now [b, a]) = Some b)
       \<and> (365 \<le> (now - tb) div usec_per_day \<longrightarrow>
            chosen (resolve_conflict_with_hybrid f now [a, b]) = Some a
          \<and> chosen (resolve_conflict_with_hybrid f now [b, a]) = Some b)"
proof -
  define da where "da = (now - ta) div usec_per_day"
  define db where "db = (now - tb) div usec_per_day"
  define X where "X = 1 - min 1 (real_of_int da / 365) * 0.7"
  define Y where "Y = 1 - min 1 (real_of_int db / 365) * 0.7"
  define W where "W = source_weight 0.5 b"
  define Q where "Q = min 1 (real (length (content_value b)) / 200) * 0.5 + 0.5"
  have d: "db + 1095 \<le> da"
    unfolding da_def db_def using apart by (rule days_apart)
  have fa: "snd (time_factors f now a) = X"
    unfolding X_def da_def using ta by (rule time_factors_cases(5))
  have fb: "snd (time_factors f now b) = Y"
    unfolding Y_def db_def using tb by (rule time_factors_cases(5))
  have sa: "hybrid_score f now a = 0.6 * W + 0.3 * X + 0.1 * Q"
    by (simp only: hybrid_score_formula fa w l W_def Q_def)
  have sb: "hybrid_score f now b = 0.6 * W + 0.3 * Y + 0.1 * Q"
    by (simp only: hybrid_score_formula fb W_def Q_def)
  have fresh: "X < Y" if "db < 365"
  proof -
    have "real_of_int db / 365 < 1" using that by simp
    moreover have "real_of_int db < real_of_int da" using d by simp
    then have "real_of_int db / 365 < real_of_int da / 365"
      by (simp add: divide_strict_right_mono)
    ultimately have "min 1 (real_of_int db / 365) < min 1 (real_of_int da / 365)"
      by (simp add: min_def)
    then show ?thesis unfolding X_def Y_def by simp
  qed
  have stale: "X = Y" if "365 \<le> db"
  proof -
    have "1 \<le> real_of_int db / 365" using that by simp
    moreover have "365 \<le> da" using d that by simp
    then have "1 \<le> real_of_int da / 365" by simp
    ultimately show ?thesis unfolding X_def Y_def by (simp add: min_def)
  qed
  have lt: "hybrid_score f now a < hybrid_score f now b" if "db < 365"
    using fresh [OF that] unfolding sa sb by simp
  have eq: "hybrid_score f now a = hybrid_score f now b" if "365 \<le> db"
    using stale [OF that] unfolding sa sb by simp
  have c1: "chosen (resolve_conflict_with_hybrid f now [a, b]) = Some b" if "db < 365"
    using lt [OF that] by (simp add: hybrid_two)
  have c2: "chosen (resolve_conflict_with_hybrid f now [b, a]) = Some b" if "db < 365"
    using lt [OF that] by (simp add: hybrid_two)
  have c3: "chosen (resolve_conflict_with_hybrid f now [a, b]) = Some a" if "365 \<le> db"
    using eq [OF that] by (simp add: hybrid_two)
  have c4: "chosen (resolve_conflict_with_hybrid f now [b, a]) = Some b" if "365 \<le> db"
    using eq [OF that] by (simp add: hybrid_two)
  show ?thesis
    using c1 c2 c3 c4 unfolding db_def by blast
qed

theorem hybrid_prefers_newer_within_a_year_witness:
  "chosen
     (resolve_conflict_with_hybrid fromisoformat_std (clock_at ''2024-01-01T00:00:00'')
        [sample_fact ''http://travel-guide.com/shigatse'' (Some 0.7) ''2020-06-10T11:30:00''
           ''9:00-18:00 in summer'',
         sample_fact ''http://tourist-handbook.com/shigatse'' (Some 0.7) ''2023-06-10T11:30:00''
           ''9:00-18:00 all year!''])
   = Some (sample_fact ''http://tourist-handbook.com/shigatse'' (Some 0.7) ''2023-06-10T11:30:00''
           ''9:00-18:00 all year!'')
   \<and> chosen
     (resolve_conflict_with_hybrid fromisoformat_std (clock_at ''2024-01-01T00:00:00'')
        [sample_fact ''http://tourist-handbook.com/shigatse'' (Some 0.7) ''2023-06-10T11:30:00''
           ''9:00-18:00 all year!'',
         sample_fact ''http://travel-guide.com/shigatse'' (Some 0.7) ''2020-06-10T11:30:00''
           ''9:00-18:00 in summer''])
   = Some (sample_fact ''http://tourist-handbook.com/shigatse'' (Some 0.7) ''2023-06-10T11:30:00''
           ''9:00-18:00 all year!'')"
proof -
  let ?a = "sample_fact ''http://travel-guide.com/shigatse'' (Some 0.7) ''2020-06-10T11:30:00''
           ''9:00-18:00 in summer''"
  let ?b = "sample_fact ''http://tourist-handbook.com/shigatse'' (Some 0.7) ''2023-06-10T11:30:00''
           ''9:00-18:00 all year!''"
  have w: "source_weight 0.5 ?a = source_weight 0.5 ?b" by (simp add: fact_eval)
  have l: "length (content_value ?a) = length (content_value ?b)"
    by (simp add: fact_eval ascii_def)
  have ta: "timestamp ?a = Some (ascii ''2020-06-10T11:30:00'')"
    "ascii ''2020-06-10T11:30:00'' \<noteq> []"
    "fromisoformat_std (replace_Z (ascii ''2020-06-10T11:30:00''))
       = Some (Naive (clock_at ''2020-06-10T11:30:00''))"
    by (simp_all add: sample_fact_def dt_eval)
  have tb: "timestamp ?b = Some (ascii ''2023-06-10T11:30:00'')"
    "ascii ''2023-06-10T11:30:00'' \<noteq> []"
    "fromisoformat_std (replace_Z (ascii ''2023-06-10T11:30:00''))
       = Some (Naive (clock_at ''2023-06-10T11:30:00''))"
    by (simp_all add: sample_fact_def dt_eval)
  have apart: "1095 * usec_per_day \<le> clock_at ''2023-06-10T11:30:00'' - clock_at ''2020-06-10T11:30:00''"
    by (simp add: dt_eval)
  have fresh: "(clock_at ''2024-01-01T00:00:00'' - clock_at ''2023-06-10T11:30:00'') div usec_per_day < 365"
    by (simp add: dt_eval)
  show ?thesis
    using hybrid_prefers_newer_within_a_year
            [OF w l ta tb apart, of "clock_at ''2024-01-01T00:00:00''"] fresh
    by blast
qed

section \<open>Properties of the statements of the graph store\<close>

lemma map_add_twice: "(m ++ p) ++ p = m ++ p"
  by (rule ext) (simp add: map_add_def split: option.splits)

lemma merge_node_rows: "snd (merge_node l nm p g) \<noteq> 0"
  by (auto simp: merge_node_def list_ex_iff filter_empty_conv)

lemma merge_node_edges: "g_edges (fst (merge_node l nm p g)) = g_edges g"
  by (simp add: merge_node_def)

lemma merge_node_settled:
  assumes "settled_node l nm p g"
  shows "fst (merge_node l nm p g) = g"
proof -
  have "map (\<lambda>n. if node_matches l nm n then n\<lparr>n_props := n_props n ++ p\<rparr> else n) (g_nodes g)
          = g_nodes g"
    using assms by (intro map_idI) (auto simp: settled_node_def list_all_iff)
  then show ?thesis using assms by (simp add: merge_node_def settled_node_def)
qed

lemma merge_node_makes_settled:
  assumes "p ''name'' = Some nm"
  shows "settled_node l nm p (fst (merge_node l nm p g))"
proof (cases "list_ex (node_matches l nm) (g_nodes g)")
  case True
  define upd where
    "upd = (\<lambda>n. if node_matches l nm n then n\<lparr>n_props := n_props n ++ p\<rparr> else n)"
  have same: "node_matches l nm (upd n) = node_matches l nm n" for n
    using assms by (simp add: upd_def node_matches_def)
  have fixed: "\<not> node_matches l nm (upd n) \<or> n_props (upd n) ++ p = n_props (upd n)" for n
    by (simp add: upd_def map_add_twice)
  from True obtain n0 where "n0 \<in> set (g_nodes g)" "node_matches l nm n0"
    by (auto simp: list_ex_iff)
  then have "upd n0 \<in> set (map upd (g_nodes g))" "node_matches l nm (upd n0)"
    using same by simp_all
  then have ex: "list_ex (node_matches l nm) (map upd (g_nodes g))"
    unfolding list_ex_iff by blast
  have "\<forall>n\<in>set (map upd (g_nodes g)).
          \<not> node_matches l nm n \<or> n_props n ++ p = n_props n"
    using fixed by auto
  then have al: "list_all (\<lambda>n. \<not> node_matches l nm n \<or> n_props n ++ p = n_props n)
          (map upd (g_nodes g))"
    unfolding list_all_iff .
  have "fst (merge_node l nm p g) = g\<lparr>g_nodes := map upd (g_nodes g)\<rparr>"
    using True by (simp add: merge_node_def upd_def)
  with ex al show ?thesis by (simp add: settled_node_def)
next
  case False
  then have no: "\<forall>n\<in>set (g_nodes g). \<not> node_matches l nm n" by (simp add: list_ex_iff)
  let ?new = "\<lparr>n_label = l, n_props = [''name'' \<mapsto> nm] ++ p\<rparr>"
  have m: "node_matches l nm ?new" using assms by (simp add: node_matches_def)
  have "n_props ?new ++ p = n_props ?new" by (simp add: map_add_twice)
  with no m False show ?thesis
    by (simp add: merge_node_def settled_node_def list_all_iff)
qed

lemma merge_node_keeps_settled:
  assumes "l' \<noteq> l" and "settled_node l nm p g"
  shows "settled_node l nm p (fst (merge_node l' nm' p' g))"
  using assms
  by (auto simp: merge_node_def settled_node_def list_ex_iff list_all_iff node_matches_def)

lemma merge_node_other_label:
  assumes "l' \<noteq> l"
  shows "filter (\<lambda>n. n_label n = l) (g_nodes (fst (merge_node l' nm' p' g)))
           = filter (\<lambda>n. n_label n = l) (g_nodes g)"
proof -
  have "filter (\<lambda>n. n_label n = l)
          (map (\<lambda>n. if node_matches l' nm' n then n\<lparr>n_props := n_props n ++ p'\<rparr> else n) xs)
        = filter (\<lambda>n. n_label n = l) xs" for xs
    using assms by (induction xs) (auto simp: node_matches_def)
  then show ?thesis using assms by (simp add: merge_node_def)
qed

lemma merge_node_matching_ids:
  assumes "l' \<noteq> l"
  shows "matching_ids l nm (fst (merge_node l' nm' p' g)) = matching_ids l nm g"
proof (cases "list_ex (node_matches l' nm') (g_nodes g)")
  case True
  have "\<And>i. i < length (g_nodes g) \<Longrightarrow>
          node_matches l nm
            (map (\<lambda>n. if node_matches l' nm' n then n\<lparr>n_props := n_props n ++ p'\<rparr> else n)
               (g_nodes g) ! i)
          = node_matches l nm (g_nodes g ! i)"
    using assms by (auto simp: node_matches_def)
  then show ?thesis
    using True by (auto simp: matching_ids_def merge_node_def intro!: filter_cong)
next
  case False
  have "\<And>i. i < length (g_nodes g) \<Longrightarrow>
          (g_nodes g @ [\<lparr>n_label = l', n_props = [''name'' \<mapsto> nm'] ++ p'\<rparr>]) ! i = g_nodes g ! i"
    by (simp add: nth_append)
  then show ?thesis
    using False assms
    by (auto simp: matching_ids_def merge_node_def node_matches_def nth_append
        intro!: filter_cong)
qed

lemma merge_node_length_when_present:
  "list_ex (node_matches l nm) (g_nodes g) \<Longrightarrow>
   length (g_nodes (fst (merge_node l nm p g))) = length (g_nodes g)"
  by (simp add: merge_node_def)

lemma merge_edge_pair_settled:
  assumes "settled_pair t p es ij"
  shows "merge_edge_pair t p ij es = es"
proof -
  have "map (\<lambda>e. if edge_matches (fst ij) t (snd ij) e then e\<lparr>e_props := e_props e ++ p\<rparr> else e) es
          = es"
    using assms by (intro map_idI) (auto simp: settled_pair_def list_all_iff)
  then show ?thesis using assms by (simp add: merge_edge_pair_def settled_pair_def)
qed

lemma merge_edge_pair_keeps:
  assumes "settled_pair t p es q"
  shows "settled_pair t p (merge_edge_pair t p ij es) q"
proof -
  define upd where
    "upd = (\<lambda>e. if edge_matches (fst ij) t (snd ij) e then e\<lparr>e_props := e_props e ++ p\<rparr> else e)"
  have same: "edge_matches i t' j (upd e) = edge_matches i t' j e" for i t' j e
    by (simp add: upd_def edge_matches_def)
  have fixed: "e_props e ++ p = e_props e \<Longrightarrow> e_props (upd e) ++ p = e_props (upd e)" for e
    by (simp add: upd_def map_add_twice)
  from assms obtain e0 where e0: "e0 \<in> set es" "edge_matches (fst q) t (snd q) e0"
    and al: "\<forall>e\<in>set es. \<not> edge_matches (fst q) t (snd q) e \<or> e_props e ++ p = e_props e"
    by (auto simp: settled_pair_def list_ex_iff list_all_iff)
  show ?thesis
  proof (cases "list_ex (edge_matches (fst ij) t (snd ij)) es")
    case True
    then have r: "merge_edge_pair t p ij es = map upd es"
      by (simp add: merge_edge_pair_def upd_def)
    have "upd e0 \<in> set (map upd es)" "edge_matches (fst q) t (snd q) (upd e0)"
      using e0 same by simp_all
    then have ex: "list_ex (edge_matches (fst q) t (snd q)) (map upd es)"
      unfolding list_ex_iff by blast
    have "\<forall>e\<in>set (map upd es).
            \<not> edge_matches (fst q) t (snd q) e \<or> e_props e ++ p = e_props e"
      using al same fixed by auto
    then show ?thesis using ex by (simp add: r settled_pair_def list_all_iff)
  next
    case False
    then have r: "merge_edge_pair t p ij es
                    = es @ [\<lparr>e_src = fst ij, e_type = t, e_dst = snd ij, e_props = p\<rparr>]"
      by (simp add: merge_edge_pair_def)
    have "e_props \<lparr>e_src = fst ij, e_type = t, e_dst = snd ij, e_props = p\<rparr> ++ p
            = e_props \<lparr>e_src = fst ij, e_type = t, e_dst = snd ij, e_props = p\<rparr>"
      by (simp add: map_add_twice [of Map.empty p, simplified])
    with e0 al show ?thesis
      by (auto simp: r settled_pair_def list_ex_iff list_all_iff)
  qed
qed

lemma merge_edge_pair_makes:
  "settled_pair t p (merge_edge_pair t p ij es) ij"
proof (cases "list_ex (edge_matches (fst ij) t (snd ij)) es")
  case True
  define upd where
    "upd = (\<lambda>e. if edge_matches (fst ij) t (snd ij) e then e\<lparr>e_props := e_props e ++ p\<rparr> else e)"
  have same: "edge_matches (fst ij) t (snd ij) (upd e) = edge_matches (fst ij) t (snd ij) e" for e
    by (simp add: upd_def edge_matches_def)
  have fixed: "\<not> edge_matches (fst ij) t (snd ij) (upd e) \<or> e_props (upd e) ++ p = e_props (upd e)"
    for e by (simp add: upd_def map_add_twice)
  from True obtain e0 where "e0 \<in> set es" "edge_matches (fst ij) t (snd ij) e0"
    by (auto simp: list_ex_iff)
  then have "upd e0 \<in> set (map upd es)" "edge_matches (fst ij) t (snd ij) (upd e0)"
    using same by simp_all
  then have ex: "list_ex (edge_matches (fst ij) t (snd ij)) (map upd es)"
    unfolding list_ex_iff by blast
  have "\<forall>e\<in>set (map upd es).
          \<not> edge_matches (fst ij) t (snd ij) e \<or> e_props e ++ p = e_props e"
    using fixed by auto
  moreover have "merge_edge_pair t p ij es = map upd es"
    using True by (simp add: merge_edge_pair_def upd_def)
  ultimately show ?thesis using ex by (simp add: settled_pair_def list_all_iff)
next
  case False
  then have no: "\<forall>e\<in>set es. \<not> edge_matches (fst ij) t (snd ij) e" by (simp add: list_ex_iff)
  have "p ++ p = p" using map_add_twice [of Map.empty p] by simp
  with no False show ?thesis
    by (simp add: merge_edge_pair_def settled_pair_def list_all_iff edge_matches_def)
qed

lemma fold_merge_keeps:
  "settled_pair t p es q \<Longrightarrow> settled_pair t p (fold (merge_edge_pair t p) pairs es) q"
  by (induction pairs arbitrary: es) (simp_all add: merge_edge_pair_keeps)

lemma fold_merge_makes:
  "q \<in> set pairs \<Longrightarrow> settled_pair t p (fold (merge_edge_pair t p) pairs es) q"
proof (induction pairs arbitrary: es)
  case Nil
  then show ?case by simp
next
  case (Cons ij pairs)
  show ?case
  proof (cases "q = ij")
    case True
    then show ?thesis by (simp add: fold_merge_keeps merge_edge_pair_makes)
  next
    case False
    with Cons show ?thesis by simp
  qed
qed

lemma fold_merge_settled:
  "\<forall>q\<in>set pairs. settled_pair t p es q \<Longrightarrow> fold (merge_edge_pair t p) pairs es = es"
  by (induction pairs) (simp_all add: merge_edge_pair_settled)

lemma merge_edge_nodes: "g_nodes (fst (merge_edge la na t lc nc p g)) = g_nodes g"
  by (simp add: merge_edge_def Let_def)

lemma settled_node_cong:
  "g_nodes g' = g_nodes g \<Longrightarrow> settled_node l nm p g' = settled_node l nm p g"
  by (simp add: settled_node_def)

lemma matching_ids_cong:
  "g_nodes g' = g_nodes g \<Longrightarrow> matching_ids l nm g' = matching_ids l nm g"
  by (simp add: matching_ids_def)

lemma merge_node_entity_nodes:
  "entity_nodes (fst (merge_node ''UpdateLog'' nm p g)) = entity_nodes g"
proof -
  have "filter (\<lambda>n. n_label n \<noteq> ''UpdateLog'')
          (map (\<lambda>n. if node_matches ''UpdateLog'' nm n then n\<lparr>n_props := n_props n ++ p\<rparr> else n) xs)
        = filter (\<lambda>n. n_label n \<noteq> ''UpdateLog'') xs" for xs
    by (induction xs) (auto simp: node_matches_def)
  then show ?thesis by (simp add: merge_node_def entity_nodes_def)
qed

lemma merge_node_audit_present:
  assumes "list_ex (node_matches ''UpdateLog'' nm) (g_nodes g)"
  shows "length (audit_entries (fst (merge_node ''UpdateLog'' nm p g))) = length (audit_entries g)"
proof -
  have "length (filter (\<lambda>n. n_label n = ''UpdateLog'')
          (map (\<lambda>n. if node_matches ''UpdateLog'' nm n then n\<lparr>n_props := n_props n ++ p\<rparr> else n) xs))
        = length (filter (\<lambda>n. n_label n = ''UpdateLog'') xs)" for xs
    by (induction xs) auto
  then show ?thesis using assms by (simp add: merge_node_def audit_entries_def)
qed

lemma merge_node_audit_absent:
  assumes "\<not> list_ex (node_matches ''UpdateLog'' nm) (g_nodes g)"
  shows "length (audit_entries (fst (merge_node ''UpdateLog'' nm p g)))
           = length (audit_entries g) + 1"
  using assms by (simp add: merge_node_def audit_entries_def)

lemma list_ex_by_label:
  "list_ex (node_matches l nm) xs
     = list_ex (\<lambda>n. n_props n ''name'' = Some nm) (filter (\<lambda>n. n_label n = l) xs)"
  by (auto simp: list_ex_iff node_matches_def)

lemma merge_node_other_list_ex:
  assumes "l' \<noteq> l"
  shows "list_ex (node_matches l nm) (g_nodes (fst (merge_node l' nm' p' g)))
           = list_ex (node_matches l nm) (g_nodes g)"
  by (simp only: list_ex_by_label merge_node_other_label [OF assms])

text \<open>The four statements of \<open>tx_work\<close> in a row, when the name and location are there.\<close>

lemma tx_work_steps:
  assumes "get_or data ''name'' [] \<noteq> []" and "get_or data ''location'' lasa_shi \<noteq> []"
  shows "tx_work py_str clk data r lid w g
     = fst (merge_node ''UpdateLog'' lid
              (log_data clk lid (get_or data ''name'' []) r (py_str w))
          (fst (merge_edge ''Attraction'' (get_or data ''name'' []) ''LOCATED_IN'' ''City''
                  (get_or data ''location'' lasa_shi) [''reason'' \<mapsto> r]
          (fst (merge_node ''City'' (get_or data ''location'' lasa_shi)
                  [''name'' \<mapsto> get_or data ''location'' lasa_shi]
          (fst (merge_node ''Attraction'' (get_or data ''name'' [])
                  (attraction_data clk data) g)))))))"
proof -
  let ?name = "get_or data ''name'' []" and ?loc = "get_or data ''location'' lasa_shi"
  obtain g1 r1 where a: "merge_node ''Attraction'' ?name (attraction_data clk data) g = (g1, r1)"
    by (cases "merge_node ''Attraction'' ?name (attraction_data clk data) g")
  obtain g2 r2 where c: "merge_node ''City'' ?loc [''name'' \<mapsto> ?loc] g1 = (g2, r2)"
    by (cases "merge_node ''City'' ?loc [''name'' \<mapsto> ?loc] g1")
  obtain g3 r3 where e: "merge_edge ''Attraction'' ?name ''LOCATED_IN'' ''City'' ?loc
                           [''reason'' \<mapsto> r] g2 = (g3, r3)"
    by (cases "merge_edge ''Attraction'' ?name ''LOCATED_IN'' ''City'' ?loc
                 [''reason'' \<mapsto> r] g2")
  have r1: "r1 \<noteq> 0"
    using merge_node_rows [of "''Attraction''" ?name "attraction_data clk data" g] a by simp
  have r2: "r2 \<noteq> 0"
    using merge_node_rows [of "''City''" ?loc "[''name'' \<mapsto> ?loc]" g1] c by simp
  show ?thesis
    using assms r1 r2 by (simp add: tx_work_def Let_def a c e)
qed

lemma tx_work_skip:
  assumes "get_or data ''name'' [] = [] \<or> get_or data ''location'' lasa_shi = []"
  shows "tx_work py_str clk data r lid w g = g"
  using assms by (auto simp: tx_work_def Let_def)

section \<open>Properties of the merge transaction\<close>

lemma attraction_data_name: "attraction_data clk data ''name'' = Some (get_or data ''name'' [])"
  by (simp add: attraction_data_def)

lemma log_data_name: "log_data clk lid nm r wt ''name'' = Some lid"
  by (simp add: log_data_def)

lemma tx_work_twice:
  assumes ad: "attraction_data c1 data = attraction_data c2 data"
    and g1: "g1 = tx_work py_str c1 data r lid w g"
    and g2: "g2 = tx_work py_str c2 data r lid w g1"
  shows "entity_nodes g2 = entity_nodes g1 \<and> g_edges g2 = g_edges g1
       \<and> length (g_nodes g2) = length (g_nodes g1)
       \<and> length (audit_entries g2) = length (audit_entries g1)"
proof (cases "get_or data ''name'' [] = [] \<or> get_or data ''location'' lasa_shi = []")
  case True
  then show ?thesis using g1 g2 by (simp add: tx_work_skip)
next
  case False
  define name where "name = get_or data ''name'' []"
  define loc where "loc = get_or data ''location'' lasa_shi"
  define adata where "adata = attraction_data c1 data"
  define cdata where "cdata = [''name'' \<mapsto> loc]"
  define rp where "rp = [''reason'' \<mapsto> r]"
  define ld1 where "ld1 = log_data c1 lid name r (py_str w)"
  define ld2 where "ld2 = log_data c2 lid name r (py_str w)"
  define gA where "gA = fst (merge_node ''Attraction'' name adata g)"
  define gC where "gC = fst (merge_node ''City'' loc cdata gA)"
  define gR where "gR = fst (merge_edge ''Attraction'' name ''LOCATED_IN'' ''City'' loc rp gC)"
  from False have ne: "get_or data ''name'' [] \<noteq> []" "get_or data ''location'' lasa_shi \<noteq> []"
    by simp_all
  have g1': "g1 = fst (merge_node ''UpdateLog'' lid ld1 gR)"
    unfolding g1 tx_work_steps [OF ne]
    by (simp add: gR_def gC_def gA_def ld1_def rp_def cdata_def adata_def name_def loc_def)
  have step2: "g2 = fst (merge_node ''UpdateLog'' lid ld2
          (fst (merge_edge ''Attraction'' name ''LOCATED_IN'' ''City'' loc rp
          (fst (merge_node ''City'' loc cdata
          (fst (merge_node ''Attraction'' name adata g1)))))))"
    unfolding g2 tx_work_steps [OF ne]
    by (simp add: ld2_def rp_def cdata_def adata_def name_def loc_def ad)
  \<comment> \<open>the attraction is settled after the first application\<close>
  have "settled_node ''Attraction'' name adata gA"
    unfolding gA_def by (rule merge_node_makes_settled) (simp add: adata_def name_def attraction_data_name)
  then have "settled_node ''Attraction'' name adata gC"
    unfolding gC_def by (intro merge_node_keeps_settled) simp_all
  then have "settled_node ''Attraction'' name adata gR"
    unfolding gR_def by (simp add: settled_node_cong [OF merge_edge_nodes])
  then have sA: "settled_node ''Attraction'' name adata g1"
    unfolding g1' by (intro merge_node_keeps_settled) simp_all
  \<comment> \<open>so is the city\<close>
  have "settled_node ''City'' loc cdata gC"
    unfolding gC_def by (rule merge_node_makes_settled) (simp add: cdata_def)
  then have "settled_node ''City'' loc cdata gR"
    unfolding gR_def by (simp add: settled_node_cong [OF merge_edge_nodes])
  then have sC: "settled_node ''City'' loc cdata g1"
    unfolding g1' by (intro merge_node_keeps_settled) simp_all
  \<comment> \<open>and every edge between them\<close>
  have idsA: "matching_ids ''Attraction'' name g1 = matching_ids ''Attraction'' name gC"
    unfolding g1' gR_def
    by (simp add: merge_node_matching_ids matching_ids_cong [OF merge_edge_nodes])
  have idsC: "matching_ids ''City'' loc g1 = matching_ids ''City'' loc gC"
    unfolding g1' gR_def
    by (simp add: merge_node_matching_ids matching_ids_cong [OF merge_edge_nodes])
  define pairs where
    "pairs = List.product (matching_ids ''Attraction'' name gC) (matching_ids ''City'' loc gC)"
  have eR: "g_edges gR = fold (merge_edge_pair ''LOCATED_IN'' rp) pairs (g_edges gC)"
    by (simp add: gR_def merge_edge_def Let_def pairs_def)
  have e1: "g_edges g1 = g_edges gR" unfolding g1' by (rule merge_node_edges)
  have "\<forall>q\<in>set pairs. settled_pair ''LOCATED_IN'' rp (g_edges g1) q"
    unfolding e1 eR by (simp add: fold_merge_makes)
  then have "fold (merge_edge_pair ''LOCATED_IN'' rp) pairs (g_edges g1) = g_edges g1"
    by (rule fold_merge_settled)
  then have sR: "fst (merge_edge ''Attraction'' name ''LOCATED_IN'' ''City'' loc rp g1) = g1"
    by (simp add: merge_edge_def Let_def idsA idsC pairs_def [symmetric])
  \<comment> \<open>the second application only writes the entry of the log again\<close>
  have g2': "g2 = fst (merge_node ''UpdateLog'' lid ld2 g1)"
    unfolding step2 by (simp add: merge_node_settled [OF sA] merge_node_settled [OF sC] sR)
  have "settled_node ''UpdateLog'' lid ld1 g1"
    unfolding g1' by (rule merge_node_makes_settled) (simp add: ld1_def log_data_name)
  then have present: "list_ex (node_matches ''UpdateLog'' lid) (g_nodes g1)"
    by (simp add: settled_node_def)
  show ?thesis
    unfolding g2'
    using present
    by (simp add: merge_node_entity_nodes merge_node_edges merge_node_length_when_present
        merge_node_audit_present)
qed

lemma tx_work_fresh_log:
  assumes "get_or data ''name'' [] \<noteq> []" and "get_or data ''location'' lasa_shi \<noteq> []"
    and "\<not> list_ex (node_matches ''UpdateLog'' lid) (g_nodes g)"
  shows "length (audit_entries (tx_work py_str clk data r lid w g)) = length (audit_entries g) + 1"
proof -
  let ?gA = "fst (merge_node ''Attraction'' (get_or data ''name'' [])
                  (attraction_data clk data) g)"
  let ?gC = "fst (merge_node ''City'' (get_or data ''location'' lasa_shi)
                  [''name'' \<mapsto> get_or data ''location'' lasa_shi] ?gA)"
  let ?gR = "fst (merge_edge ''Attraction'' (get_or data ''name'' []) ''LOCATED_IN'' ''City''
                  (get_or data ''location'' lasa_shi) [''reason'' \<mapsto> r] ?gC)"
  have n: "\<not> list_ex (node_matches ''UpdateLog'' lid) (g_nodes ?gR)"
    using assms(3) by (simp add: merge_edge_nodes merge_node_other_list_ex)
  have a: "audit_entries ?gR = audit_entries g"
    by (simp add: audit_entries_def merge_edge_nodes merge_node_other_label)
  show ?thesis
    unfolding tx_work_steps [OF assms(1,2)]
    using merge_node_audit_absent [OF n] by (simp add: a)
qed

lemma attraction_data_clock:
  "data ''pub_timestamp'' \<noteq> None \<or> at_entry c1 = at_entry c2 \<Longrightarrow>
   attraction_data c1 data = attraction_data c2 data"
  by (cases "data ''pub_timestamp''") (simp_all add: attraction_data_def get_or_def)

lemma preprocess_data_other:
  "k \<noteq> ''name'' \<Longrightarrow> preprocess_data data k = data k"
  by (simp add: preprocess_data_def)

lemma preprocess_data_get_or:
  "k \<noteq> ''name'' \<Longrightarrow> get_or (preprocess_data data) k d = get_or data k d"
  by (simp add: get_or_def preprocess_data_other)

lemma preprocess_data_name:
  "get_or data ''name'' [] \<noteq> [] \<Longrightarrow> get_or (preprocess_data data) ''name'' [] \<noteq> []"
  by (simp add: get_or_def preprocess_data_def namucuo_def)

text \<open>The equations that evaluate the merge transaction on the sample store.\<close>

lemmas store_eval = run_update_def run_update_twice_def update_knowledge_graph_def
  preprocess_data_def tx_work_def merge_node_def merge_edge_def merge_edge_pair_def
  matching_ids_def node_matches_def edge_matches_def attraction_data_def log_data_def
  get_or_def potala_def empty_store_def audit_entries_def entity_nodes_def
  lasa_shi_def namucuo_alias_def ascii_def Let_def

text \<open>
  Claim C1 fails as stated: under the same \<open>log_id\<close> the second application adds no
  audit entry. The store holds one entry after the first application and one after the
  second.
\<close>

theorem same_log_id_adds_no_audit_entry:
  "map_sum id (\<lambda>g. length (audit_entries g)) (run_update clock1 empty_store) = Inr 1
   \<and> map_sum id (\<lambda>g. length (audit_entries g)) run_update_twice = Inr 1"
  by (simp add: store_eval)

text \<open>
  Claim C1, amended. Applying the same accepted fact, with its \<open>pub_timestamp\<close> and under
  the same \<open>log_id\<close>, a second time through \<open>update_knowledge_graph\<close> leaves every
  node of the entity and of its city and every edge as the first application left them and
  creates no node. The audit entry is merged on its \<open>log_id\<close>: the second application
  writes the entry of that \<open>log_id\<close> again and adds none, and an application under a
  \<open>log_id\<close> that the store does not hold yet adds exactly one.
\<close>

theorem update_knowledge_graph_reapplied:
  assumes first: "update_knowledge_graph py_str c1 data lid r w g = Inr g1"
    and second: "update_knowledge_graph py_str c2 data lid r w g1 = Inr g2"
    and stamp: "data ''pub_timestamp'' \<noteq> None \<or> at_entry c1 = at_entry c2"
  shows "entity_nodes g2 = entity_nodes g1 \<and> g_edges g2 = g_edges g1
       \<and> length (g_nodes g2) = length (g_nodes g1)
       \<and> length (audit_entries g2) = length (audit_entries g1)
       \<and> (\<not> list_ex (node_matches ''UpdateLog'' lid) (g_nodes g)
            \<and> get_or data ''location'' lasa_shi \<noteq> [] \<longrightarrow>
          length (audit_entries g1) = length (audit_entries g) + 1)"
proof -
  let ?d = "preprocess_data data"
  from first have name: "get_or data ''name'' [] \<noteq> []"
    by (auto simp: update_knowledge_graph_def split: if_splits)
  from first name have g1: "g1 = tx_work py_str c1 ?d r lid w g"
    by (simp add: update_knowledge_graph_def)
  from second name have g2: "g2 = tx_work py_str c2 ?d r lid w g1"
    by (simp add: update_knowledge_graph_def)
  have "?d ''pub_timestamp'' \<noteq> None \<or> at_entry c1 = at_entry c2"
    using stamp by (simp add: preprocess_data_other)
  then have ad: "attraction_data c1 ?d = attraction_data c2 ?d"
    by (rule attraction_data_clock)
  have fresh: "length (audit_entries g1) = length (audit_entries g) + 1"
    if "\<not> list_ex (node_matches ''UpdateLog'' lid) (g_nodes g)"
      and "get_or data ''location'' lasa_shi \<noteq> []"
    unfolding g1
    using that preprocess_data_name [OF name]
    by (intro tx_work_fresh_log) (simp_all add: preprocess_data_get_or)
  from tx_work_twice [OF ad g1 g2] fresh show ?thesis by blast
qed

theorem update_knowledge_graph_reapplied_witness:
  "run_update clock1 empty_store = Inr stored_once
   \<and> run_update clock2 stored_once = Inr stored_twice
   \<and> entity_nodes stored_twice = entity_nodes stored_once
   \<and> g_edges stored_twice = g_edges stored_once
   \<and> length (g_nodes stored_twice) = length (g_nodes stored_once)
   \<and> length (audit_entries stored_twice) = length (audit_entries stored_once)
   \<and> length (audit_entries stored_once) = length (audit_entries empty_store) + 1"
proof -
  have name: "get_or potala ''name'' [] \<noteq> []"
    by (simp add: potala_def get_or_def ascii_def)
  have first: "update_knowledge_graph (\<lambda>w. w) clock1 potala (ascii ''Potala Palace_2025-07-01'')
       (ascii ''Initial import'') (ascii ''{rules_valid: 1.0}'') empty_store = Inr stored_once"
    using name by (simp add: update_knowledge_graph_def stored_once_def)
  have second: "update_knowledge_graph (\<lambda>w. w) clock2 potala (ascii ''Potala Palace_2025-07-01'')
       (ascii ''Initial import'') (ascii ''{rules_valid: 1.0}'') stored_once = Inr stored_twice"
    using name by (simp add: update_knowledge_graph_def stored_twice_def)
  have stamp: "potala ''pub_timestamp'' \<noteq> None \<or> at_entry clock1 = at_entry clock2"
    by (simp add: potala_def)
  have fresh: "\<not> list_ex (node_matches ''UpdateLog'' (ascii ''Potala Palace_2025-07-01''))
                   (g_nodes empty_store)"
    by (simp add: empty_store_def)
  have loc: "get_or potala ''location'' lasa_shi \<noteq> []"
    by (simp add: potala_def get_or_def lasa_shi_def)
  show ?thesis
    using update_knowledge_graph_reapplied [OF first second stamp] fresh loc first second
    by (simp add: run_update_def)
qed

end
